theory Spec2Isabelle
  imports Complex_Main "HOL-Library.Word"
begin

section \<open>Errors\<close>

text \<open>
  Every exception the Python source can raise is a value of \<open>error\<close>; a function that
  may raise returns \<open>error + 'a\<close> with \<open>Inl\<close> for the exception. \<open>ShapeError\<close> is the
  error of a matrix product whose inner dimensions differ, and \<open>Unsupported\<close> marks an
  array operation on operands the embedding does not cover (see the section on tensors).
\<close>

datatype error =
    ValueError | TypeError | AttributeError | ZeroDivisionError | ShapeError | Unsupported

definition bind_err :: "error + 'a \<Rightarrow> ('a \<Rightarrow> error + 'b) \<Rightarrow> error + 'b" where
  "bind_err r f = (case r of Inl e \<Rightarrow> Inl e | Inr x \<Rightarrow> f x)"

section \<open>The batching utility (src/data/utils.py)\<close>

text \<open>
  \<open>np.array_split(ary, n)\<close> of the NumPy library: \<open>n \<le> 0\<close> raises ValueError; otherwise
  with \<open>(each, extras) = divmod(len(ary), n)\<close> the first \<open>extras\<close> sections have
  \<open>each + 1\<close> elements and the remaining \<open>n - extras\<close> sections have \<open>each\<close>.
\<close>

fun split_sections :: "nat list \<Rightarrow> 'a list \<Rightarrow> 'a list list" where
  "split_sections [] xs = []"
| "split_sections (s # ss) xs = take s xs # split_sections ss (drop s xs)"

definition array_split :: "'a list \<Rightarrow> int \<Rightarrow> error + 'a list list" where
  "array_split ary nsections =
     (if nsections \<le> 0 then Inl ValueError
      else let n = nat nsections;
               each = length ary div n;
               extras = length ary mod n
           in Inr (split_sections (replicate extras (each + 1) @ replicate (n - extras) each) ary))"

text \<open>
  \<open>batch_idx[: k].reshape((steps, batch_size))\<close>: the rows of the reshaped index array.
\<close>

fun reshape_rows :: "nat \<Rightarrow> nat \<Rightarrow> 'a list \<Rightarrow> 'a list list" where
  "reshape_rows 0 n xs = []"
| "reshape_rows (Suc m) n xs = take n xs # reshape_rows m n (drop n xs)"

text \<open>
  \<open>data_loader\<close>. The dataset is the list of its rows, \<open>dataset[idx]\<close> selects the rows at
  the indices \<open>idx\<close>, and the generator is the list of the batches it yields.
  \<open>permutation\<close> stands for \<open>jax.random.permutation\<close>. Division by a zero batch size raises
  ZeroDivisionError; a negative batch size makes \<open>reshape\<close> raise ValueError.
\<close>

definition data_loader ::
  "('k \<Rightarrow> nat \<Rightarrow> nat list) \<Rightarrow> 'k \<Rightarrow> 'r list \<Rightarrow> int \<Rightarrow> bool \<Rightarrow> bool \<Rightarrow>
   ('r list \<Rightarrow> 'r list) option \<Rightarrow> error + 'r list list" where
  "data_loader permutation rng dataset batch_size shuffle drop_last transform_fn =
     (let batch_idx = (if shuffle then permutation rng (length dataset)
                       else [0..<length dataset]);
          finish = (\<lambda>idxs. Inr (map (\<lambda>idx.
                      let batch = map (\<lambda>i. dataset ! i) idx
                      in (case transform_fn of None \<Rightarrow> batch | Some f \<Rightarrow> f batch)) idxs))
      in if batch_size = 0 then Inl ZeroDivisionError
         else if drop_last then
           (let steps_per_epoch = int (length dataset) div batch_size
            in if batch_size < 0 then Inl ValueError
               else finish (reshape_rows (nat steps_per_epoch) (nat batch_size)
                              (take (nat (steps_per_epoch * batch_size)) batch_idx)))
         else
           (let steps_per_epoch = ceiling (of_int (int (length dataset)) / of_int batch_size :: rat)
            in bind_err (array_split batch_idx steps_per_epoch) finish))"

section \<open>Factorization policy (src/optimizers/optax/flora.py)\<close>

text \<open>
  The arguments of \<open>scale_by_flora\<close>; \<open>'a\<close> is the type of tensor elements. \<open>beta\<close> is
  the decay \<open>flora\<close> passes (\<open>b1\<close>), \<open>tau\<close> is \<open>None\<close> or a rank, and \<open>kappa\<close> is read
  as an \<open>int32\<close>, the dtype of \<open>count\<close> it is compared with.
\<close>

record 'a config =
  factored :: bool
  beta :: 'a
  tau :: "nat option"
  seed :: int
  kappa :: "32 word"
  rng_only :: bool
  min_dim_size_to_factor :: int
  side :: string

text \<open>
  \<open>should_factorize\<close> reads \<open>params.ndim\<close> and \<open>params.shape\<close> only, so it takes the
  shape.
\<close>

definition should_factorize :: "'a config \<Rightarrow> nat list \<Rightarrow> bool" where
  "should_factorize cfg shp =
     (if \<not> factored cfg then False
      else if length shp \<noteq> 2 then False
      else if Max (set shp) > Min (set shp) * 16 then False
      else min_dim_size_to_factor cfg \<le> int (Min (set shp)))"

section \<open>Tensors\<close>

text \<open>
  An array is its shape and its elements in row-major order. The element type \<open>'a\<close> is
  a field: arithmetic is exact, the rounding of \<open>float32\<close> is not part of the
  embedding, and \<open>astype(mu_dtype)\<close> is the identity on it.
  Elementwise addition is defined for equal shapes and \<open>@\<close> and \<open>.T\<close> for matrices,
  which is all the optimizer applies them to when the gradients have the shapes of the
  parameters; any other operands give \<open>Inl Unsupported\<close> (NumPy broadcasting between
  unequal shapes and batched products are not embedded). A product of two matrices
  whose inner dimensions differ raises, here \<open>ShapeError\<close>.
\<close>

datatype 'a tensor = Tensor (shape: "nat list") (elems: "'a list")

definition zeros :: "nat list \<Rightarrow> 'a::zero tensor" where
  "zeros shp = Tensor shp (replicate (prod_list shp) 0)"

definition smul :: "'a::times \<Rightarrow> 'a tensor \<Rightarrow> 'a tensor" where
  \<comment> \<open>\<open>c * t\<close>\<close>
  "smul c t = Tensor (shape t) (map (\<lambda>x. c * x) (elems t))"

definition mul_scalar :: "'a::times tensor \<Rightarrow> 'a \<Rightarrow> 'a tensor" where
  \<comment> \<open>\<open>t * c\<close>\<close>
  "mul_scalar t c = Tensor (shape t) (map (\<lambda>x. x * c) (elems t))"

definition div_scalar :: "'a::inverse tensor \<Rightarrow> 'a \<Rightarrow> 'a tensor" where
  \<comment> \<open>\<open>t / c\<close>\<close>
  "div_scalar t c = Tensor (shape t) (map (\<lambda>x. x / c) (elems t))"

definition add_t :: "'a::plus tensor \<Rightarrow> 'a tensor \<Rightarrow> 'a tensor" where
  \<comment> \<open>the entrywise sum of two arrays of one shape\<close>
  "add_t a b = Tensor (shape a) (map2 (\<lambda>x y. x + y) (elems a) (elems b))"

definition tadd :: "'a::plus tensor \<Rightarrow> 'a tensor \<Rightarrow> error + 'a tensor" where
  \<comment> \<open>\<open>a + b\<close>\<close>
  "tadd a b = (if shape a = shape b then Inr (add_t a b) else Inl Unsupported)"

definition ema :: "'a::field \<Rightarrow> 'a tensor \<Rightarrow> 'a tensor \<Rightarrow> 'a tensor" where
  \<comment> \<open>the exponential-decay rule \<open>b * history + (1 - b) * new_observation\<close>, entry by entry\<close>
  "ema b h obs = Tensor (shape h) (map2 (\<lambda>x y. b * x + (1 - b) * y) (elems h) (elems obs))"

fun dims2 :: "nat list \<Rightarrow> (nat \<times> nat) option" where
  "dims2 [m, n] = Some (m, n)"
| "dims2 _ = None"

definition mat_T :: "'a tensor \<Rightarrow> 'a tensor" where
  \<comment> \<open>the transpose of a matrix: entry \<open>(j, i)\<close> of the result is entry \<open>(i, j)\<close> of \<open>t\<close>\<close>
  "mat_T t =
     (let m = shape t ! 0; n = shape t ! Suc 0
      in Tensor [n, m] (concat (map (\<lambda>j. map (\<lambda>i. elems t ! (i * n + j)) [0..<m]) [0..<n])))"

definition mat_mul :: "'a::semiring_0 tensor \<Rightarrow> 'a tensor \<Rightarrow> 'a tensor" where
  \<comment> \<open>the product of matrices: entry \<open>(i, j)\<close> is the sum over \<open>k\<close> of \<open>a[i, k] * b[k, j]\<close>\<close>
  "mat_mul a b =
     (let m = shape a ! 0; n = shape a ! Suc 0; p = shape b ! Suc 0
      in Tensor [m, p]
           (concat (map (\<lambda>i. map (\<lambda>j.
              sum_list (map (\<lambda>k. elems a ! (i * n + k) * elems b ! (k * p + j)) [0..<n]))
              [0..<p]) [0..<m])))"

definition transpose_t :: "'a tensor \<Rightarrow> error + 'a tensor" where
  \<comment> \<open>\<open>t.T\<close>\<close>
  "transpose_t t = (if length (shape t) = 2 then Inr (mat_T t) else Inl Unsupported)"

definition matmul :: "'a::semiring_0 tensor \<Rightarrow> 'a tensor \<Rightarrow> error + 'a tensor" where
  \<comment> \<open>\<open>a @ b\<close>\<close>
  "matmul a b =
     (if length (shape a) = 2 \<and> length (shape b) = 2 then
        (if shape a ! Suc 0 = shape b ! 0 then Inr (mat_mul a b) else Inl ShapeError)
      else Inl Unsupported)"

definition multi_dot3 :: "'a::semiring_0 tensor \<Rightarrow> 'a tensor \<Rightarrow> 'a tensor \<Rightarrow> error + 'a tensor" where
  \<comment> \<open>\<open>jnp.linalg.multi_dot([a, b, c])\<close>: the product \<open>a @ b @ c\<close>; the order of
      evaluation it picks does not change an exact product\<close>
  "multi_dot3 a b c = bind_err (matmul a b) (\<lambda>ab. matmul ab c)"

section \<open>Random keys\<close>

text \<open>
  The primitives the optimizer takes from JAX and from \<open>src/optimizers/optax/utils.py\<close>
  (which is not among the sources) are parameters of the embedding:
  \<open>PRNGKey\<close> is \<open>jax.random.PRNGKey\<close>, \<open>split\<close> is \<open>jax.random.split(key, 2)\<close>,
  \<open>tree_key rng n i\<close> is the key \<open>random_split_like_tree(rng, tree)\<close> gives leaf \<open>i\<close>
  of a tree of \<open>n\<close> leaves, \<open>normal key shape i\<close> and \<open>orthogonal key shape i\<close> are
  the entries at flat index \<open>i\<close> of \<open>jax.random.normal(key, shape)\<close> and
  \<open>random_orthogonal(key, shape)\<close>, and \<open>sqrt_of n\<close> is \<open>jnp.sqrt(n)\<close>.
\<close>

record ('k, 'a) prims =
  PRNGKey :: "int \<Rightarrow> 'k"
  split :: "'k \<Rightarrow> 'k \<times> 'k"
  next_rng_key :: "'k \<Rightarrow> 'k"
  tree_key :: "'k \<Rightarrow> nat \<Rightarrow> nat \<Rightarrow> 'k"
  normal :: "'k \<Rightarrow> nat \<times> nat \<Rightarrow> nat \<Rightarrow> 'a"
  orthogonal :: "'k \<Rightarrow> nat \<times> nat \<Rightarrow> nat \<Rightarrow> 'a"
  sqrt_of :: "nat \<Rightarrow> 'a"

definition random_split_like_tree :: "('k, 'a) prims \<Rightarrow> 'k \<Rightarrow> 'b list \<Rightarrow> 'k list" where
  "random_split_like_tree P rng_key tree =
     map (tree_key P rng_key (length tree)) [0..<length tree]"

definition orth :: bool where
  "orth = False"

definition random_generate :: "('k, 'a::field) prims \<Rightarrow> 'k \<Rightarrow> nat \<times> nat \<Rightarrow> 'a tensor" where
  "random_generate P key shp =
     (if orth then
        Tensor [fst shp, snd shp] (map (orthogonal P key shp) [0..<fst shp * snd shp])
      else
        div_scalar (Tensor [fst shp, snd shp] (map (normal P key shp) [0..<fst shp * snd shp]))
                   (sqrt_of P (min (fst shp) (snd shp))))"

section \<open>Decompositions and the state of the estimator\<close>

text \<open>
  A stored projection is a key in \<open>rng_only\<close> mode and a matrix otherwise. The fields of
  \<open>TwoSideRandomDecomposition\<close> are \<open>l_data\<close>, \<open>l_proj\<close>, \<open>r_data\<close>, \<open>r_proj\<close>, each
  \<open>None\<close> or populated. The parameter tree is the list of its leaves.
\<close>

datatype ('k, 'a) proj = Key 'k | Mat "'a tensor"

datatype ('k, 'a) decomposition =
    NaiveDecomposition "'a tensor"
  | TwoSideRandomDecomposition
      "'a tensor option" "('k, 'a) proj option" "'a tensor option" "('k, 'a) proj option"

record ('k, 'a) ScaleByFloraState =
  count :: "32 word"
  decomposition :: "('k, 'a) decomposition list"
  rng :: 'k

text \<open>Attribute reads: a missing attribute is an AttributeError.\<close>

fun get_data :: "('k, 'a) decomposition \<Rightarrow> error + 'a tensor" where
  "get_data (NaiveDecomposition d) = Inr d"
| "get_data (TwoSideRandomDecomposition ld lp rd rp) = Inl AttributeError"

fun get_l_data :: "('k, 'a) decomposition \<Rightarrow> error + 'a tensor option" where
  "get_l_data (TwoSideRandomDecomposition ld lp rd rp) = Inr ld"
| "get_l_data (NaiveDecomposition d) = Inl AttributeError"

fun get_l_proj :: "('k, 'a) decomposition \<Rightarrow> error + ('k, 'a) proj option" where
  "get_l_proj (TwoSideRandomDecomposition ld lp rd rp) = Inr lp"
| "get_l_proj (NaiveDecomposition d) = Inl AttributeError"

fun get_r_data :: "('k, 'a) decomposition \<Rightarrow> error + 'a tensor option" where
  "get_r_data (TwoSideRandomDecomposition ld lp rd rp) = Inr rd"
| "get_r_data (NaiveDecomposition d) = Inl AttributeError"

fun get_r_proj :: "('k, 'a) decomposition \<Rightarrow> error + ('k, 'a) proj option" where
  "get_r_proj (TwoSideRandomDecomposition ld lp rd rp) = Inr rp"
| "get_r_proj (NaiveDecomposition d) = Inl AttributeError"

text \<open>Arithmetic on \<open>None\<close> is a TypeError.\<close>

definition need_tensor :: "'a tensor option \<Rightarrow> error + 'a tensor" where
  "need_tensor t = (case t of None \<Rightarrow> Inl TypeError | Some x \<Rightarrow> Inr x)"

text \<open>
  \<open>jax.tree_map\<close> over trees of the same structure; a tree of another structure is a
  ValueError, and the first leaf that raises ends the map.
\<close>

fun sequence_err :: "(error + 'a) list \<Rightarrow> error + 'a list" where
  "sequence_err [] = Inr []"
| "sequence_err (r # rs) =
     bind_err r (\<lambda>x. bind_err (sequence_err rs) (\<lambda>xs. Inr (x # xs)))"

definition tree_map2 :: "('x \<Rightarrow> 'y \<Rightarrow> error + 'r) \<Rightarrow> 'x list \<Rightarrow> 'y list \<Rightarrow> error + 'r list" where
  "tree_map2 f xs ys =
     (if length ys \<noteq> length xs then Inl ValueError
      else sequence_err (map (\<lambda>i. f (xs ! i) (ys ! i)) [0..<length xs]))"

definition tree_map3 ::
  "('x \<Rightarrow> 'y \<Rightarrow> 'z \<Rightarrow> error + 'r) \<Rightarrow> 'x list \<Rightarrow> 'y list \<Rightarrow> 'z list \<Rightarrow> error + 'r list" where
  "tree_map3 f xs ys zs =
     (if length ys \<noteq> length xs \<or> length zs \<noteq> length xs then Inl ValueError
      else sequence_err (map (\<lambda>i. f (xs ! i) (ys ! i) (zs ! i)) [0..<length xs]))"

section \<open>The Flora moment estimator (scale_by_flora)\<close>

text \<open>
  The side the code computes at every use:
  \<open>_side = ("right" if outd > ind else "left") if side == "auto" else side\<close>.
\<close>

definition side_of :: "'a config \<Rightarrow> nat \<Rightarrow> nat \<Rightarrow> string" where
  "side_of cfg ind outd =
     (if side cfg = ''auto'' then (if outd > ind then ''right'' else ''left'') else side cfg)"

text \<open>A shape that holds \<open>tau = None\<close> is a TypeError.\<close>

definition zeros_tau :: "'a::zero config \<Rightarrow> (nat \<Rightarrow> nat list) \<Rightarrow> error + 'a tensor" where
  "zeros_tau cfg shp = (case tau cfg of None \<Rightarrow> Inl TypeError | Some t \<Rightarrow> Inr (zeros (shp t)))"

definition generate_tau ::
  "('k, 'a::field) prims \<Rightarrow> 'a config \<Rightarrow> 'k \<Rightarrow> (nat \<Rightarrow> nat \<times> nat) \<Rightarrow> error + 'a tensor" where
  "generate_tau P cfg key shp =
     (case tau cfg of None \<Rightarrow> Inl TypeError | Some t \<Rightarrow> Inr (random_generate P key (shp t)))"

subsection \<open>init_fn\<close>

definition init_proj ::
  "('k, 'a::field) prims \<Rightarrow> 'a config \<Rightarrow> 'k \<Rightarrow> (nat \<Rightarrow> nat \<times> nat) \<Rightarrow> error + ('k, 'a) proj" where
  \<comment> \<open>\<open>key if rng_only else random_generate(key, shape, mu_dtype)\<close>\<close>
  "init_proj P cfg key shp =
     (if rng_only cfg then Inr (Key key)
      else bind_err (generate_tau P cfg key shp) (\<lambda>m. Inr (Mat m)))"

definition init_layer ::
  "('k, 'a::field) prims \<Rightarrow> 'a config \<Rightarrow> 'a tensor \<Rightarrow> 'k \<Rightarrow> error + ('k, 'a) decomposition" where
  "init_layer P cfg params key =
     (if should_factorize cfg (shape params) then
        (case dims2 (shape params) of
           None \<Rightarrow> Inl ValueError
         | Some (ind, outd) \<Rightarrow>
             (let (l_key, r_key) = split P key;
                  s = side_of cfg ind outd
              in bind_err (if s \<noteq> ''left''
                           then bind_err (zeros_tau cfg (\<lambda>t. [outd, t])) (\<lambda>z. Inr (Some z))
                           else Inr None) (\<lambda>r_data.
                 bind_err (if s \<noteq> ''left''
                           then bind_err (init_proj P cfg r_key (\<lambda>t. (t, ind))) (\<lambda>p. Inr (Some p))
                           else Inr None) (\<lambda>r_proj.
                 bind_err (if s \<noteq> ''right''
                           then bind_err (zeros_tau cfg (\<lambda>t. [t, ind])) (\<lambda>z. Inr (Some z))
                           else Inr None) (\<lambda>l_data.
                 bind_err (if s \<noteq> ''right''
                           then bind_err (init_proj P cfg l_key (\<lambda>t. (outd, t))) (\<lambda>p. Inr (Some p))
                           else Inr None) (\<lambda>l_proj.
                 Inr (TwoSideRandomDecomposition l_data l_proj r_data r_proj)))))))
      else Inr (NaiveDecomposition (zeros (shape params))))"

definition init_fn ::
  "('k, 'a::field) prims \<Rightarrow> 'a config \<Rightarrow> 'a tensor list \<Rightarrow> error + ('k, 'a) ScaleByFloraState" where
  "init_fn P cfg params =
     (let r = PRNGKey P (seed cfg);
          prngkey_tree = random_split_like_tree P r params
      in bind_err (tree_map2 (init_layer P cfg) params prngkey_tree) (\<lambda>d.
         Inr \<lparr>count = 0, decomposition = d, rng = r\<rparr>))"

subsection \<open>update_state\<close>

definition naive_fn ::
  "'a::field config \<Rightarrow> 'a tensor \<Rightarrow> ('k, 'a) decomposition \<Rightarrow> error + ('k, 'a) decomposition" where
  "naive_fn cfg grad dcomp =
     bind_err (get_data dcomp) (\<lambda>d.
     bind_err (tadd (smul (beta cfg) d) (smul (1 - beta cfg) grad)) (\<lambda>t.
     Inr (NaiveDecomposition t)))"

text \<open>
  \<open>random_generate(p, shape, mu_dtype) if rng_only else p\<close> for a stored projection
  \<open>p\<close>; a projection that is \<open>None\<close> or of the other representation is a TypeError.
\<close>

definition stored_proj ::
  "('k, 'a::field) prims \<Rightarrow> 'a config \<Rightarrow> ('k, 'a) proj option \<Rightarrow> (nat \<Rightarrow> nat \<times> nat)
   \<Rightarrow> error + 'a tensor" where
  "stored_proj P cfg p shp =
     (if rng_only cfg then
        (case p of Some (Key k) \<Rightarrow> generate_tau P cfg k shp | _ \<Rightarrow> Inl TypeError)
      else (case p of Some (Mat m) \<Rightarrow> Inr m | _ \<Rightarrow> Inl TypeError))"

definition new_key ::
  "('k, 'a) prims \<Rightarrow> 'a config \<Rightarrow> ('k, 'a) proj option \<Rightarrow> 'k \<Rightarrow> error + 'k" where
  \<comment> \<open>\<open>next_rng_key(p) if rng_only else key\<close>\<close>
  "new_key P cfg p key =
     (if rng_only cfg then
        (case p of Some (Key k) \<Rightarrow> Inr (next_rng_key P k) | _ \<Rightarrow> Inl TypeError)
      else Inr key)"

definition full_left ::
  "('k, 'a::field) prims \<Rightarrow> 'a config \<Rightarrow> 'a tensor \<Rightarrow> ('k, 'a) decomposition \<Rightarrow> 'k \<Rightarrow> nat
   \<Rightarrow> error + 'a tensor \<times> ('k, 'a) proj" where
  "full_left P cfg grad dcomp l_key outd =
     bind_err (get_l_proj dcomp) (\<lambda>p.
     bind_err (stored_proj P cfg p (\<lambda>t. (outd, t))) (\<lambda>l_proj.
     bind_err (bind_err (get_l_data dcomp) need_tensor) (\<lambda>l_data.
     bind_err (new_key P cfg p l_key) (\<lambda>new_l_key.
     bind_err (generate_tau P cfg new_l_key (\<lambda>t. (outd, t))) (\<lambda>new_l_proj.
     bind_err (transpose_t new_l_proj) (\<lambda>new_l_proj_T.
     bind_err (multi_dot3 new_l_proj_T l_proj l_data) (\<lambda>his_l.
     bind_err (transpose_t grad) (\<lambda>grad_T.
     bind_err (matmul new_l_proj_T grad_T) (\<lambda>obs.
     bind_err (tadd (smul (beta cfg) his_l) (smul (1 - beta cfg) obs)) (\<lambda>new_l_data.
     Inr (new_l_data, if rng_only cfg then Key new_l_key else Mat new_l_proj)))))))))))"

definition full_right ::
  "('k, 'a::field) prims \<Rightarrow> 'a config \<Rightarrow> 'a tensor \<Rightarrow> ('k, 'a) decomposition \<Rightarrow> 'k \<Rightarrow> nat
   \<Rightarrow> error + 'a tensor \<times> ('k, 'a) proj" where
  "full_right P cfg grad dcomp r_key ind =
     bind_err (get_r_proj dcomp) (\<lambda>p.
     bind_err (stored_proj P cfg p (\<lambda>t. (t, ind))) (\<lambda>r_proj.
     bind_err (bind_err (get_r_data dcomp) need_tensor) (\<lambda>r_data.
     bind_err (new_key P cfg p r_key) (\<lambda>new_r_key.
     bind_err (generate_tau P cfg new_r_key (\<lambda>t. (t, ind))) (\<lambda>new_r_proj.
     bind_err (transpose_t new_r_proj) (\<lambda>new_r_proj_T.
     bind_err (multi_dot3 r_data r_proj new_r_proj_T) (\<lambda>his_r.
     bind_err (transpose_t grad) (\<lambda>grad_T.
     bind_err (matmul grad_T new_r_proj_T) (\<lambda>obs.
     bind_err (tadd (smul (beta cfg) his_r) (smul (1 - beta cfg) obs)) (\<lambda>new_r_data.
     Inr (new_r_data, if rng_only cfg then Key new_r_key else Mat new_r_proj)))))))))))"

definition full_layer_fn ::
  "('k, 'a::field) prims \<Rightarrow> 'a config \<Rightarrow> 'a tensor \<Rightarrow> ('k, 'a) decomposition \<Rightarrow> 'k
   \<Rightarrow> error + ('k, 'a) decomposition" where
  "full_layer_fn P cfg grad dcomp key =
     (if \<not> should_factorize cfg (shape grad) then naive_fn cfg grad dcomp
      else
        (case dims2 (shape grad) of
           None \<Rightarrow> Inl ValueError
         | Some (ind, outd) \<Rightarrow>
             (let s = side_of cfg ind outd;
                  (l_key, r_key) = split P key
              in bind_err (if s \<noteq> ''right''
                           then bind_err (full_left P cfg grad dcomp l_key outd)
                                  (\<lambda>(d, p). Inr (Some d, Some p))
                           else Inr (None, None)) (\<lambda>(new_l_data, new_l_proj).
                 bind_err (if s \<noteq> ''left''
                           then bind_err (full_right P cfg grad dcomp r_key ind)
                                  (\<lambda>(d, p). Inr (Some d, Some p))
                           else Inr (None, None)) (\<lambda>(new_r_data, new_r_proj).
                 Inr (TwoSideRandomDecomposition new_l_data new_l_proj new_r_data new_r_proj))))))"

definition partial_left ::
  "('k, 'a::field) prims \<Rightarrow> 'a config \<Rightarrow> 'a tensor \<Rightarrow> ('k, 'a) decomposition \<Rightarrow> nat
   \<Rightarrow> error + 'a tensor \<times> ('k, 'a) proj option" where
  "partial_left P cfg grad dcomp outd =
     bind_err (bind_err (get_l_data dcomp) need_tensor) (\<lambda>l_data.
     bind_err (get_l_proj dcomp) (\<lambda>p.
     bind_err (stored_proj P cfg p (\<lambda>t. (outd, t))) (\<lambda>l_proj.
     bind_err (transpose_t l_proj) (\<lambda>l_proj_T.
     bind_err (transpose_t grad) (\<lambda>grad_T.
     bind_err (matmul l_proj_T grad_T) (\<lambda>obs.
     bind_err (tadd (smul (beta cfg) l_data) (smul (1 - beta cfg) obs)) (\<lambda>new_l_data.
     Inr (new_l_data, if rng_only cfg then p else p))))))))"

definition partial_right ::
  "('k, 'a::field) prims \<Rightarrow> 'a config \<Rightarrow> 'a tensor \<Rightarrow> ('k, 'a) decomposition \<Rightarrow> nat
   \<Rightarrow> error + 'a tensor \<times> ('k, 'a) proj option" where
  "partial_right P cfg grad dcomp ind =
     bind_err (bind_err (get_r_data dcomp) need_tensor) (\<lambda>r_data.
     bind_err (get_r_proj dcomp) (\<lambda>p.
     bind_err (stored_proj P cfg p (\<lambda>t. (t, ind))) (\<lambda>r_proj.
     bind_err (transpose_t r_proj) (\<lambda>r_proj_T.
     bind_err (transpose_t grad) (\<lambda>grad_T.
     bind_err (matmul grad_T r_proj_T) (\<lambda>obs.
     bind_err (tadd (smul (beta cfg) r_data) (smul (1 - beta cfg) obs)) (\<lambda>new_r_data.
     Inr (new_r_data, if rng_only cfg then p else p))))))))"

definition partial_layer_fn ::
  "('k, 'a::field) prims \<Rightarrow> 'a config \<Rightarrow> 'a tensor \<Rightarrow> ('k, 'a) decomposition \<Rightarrow> 'k
   \<Rightarrow> error + ('k, 'a) decomposition" where
  "partial_layer_fn P cfg grad dcomp key =
     (if \<not> should_factorize cfg (shape grad) then naive_fn cfg grad dcomp
      else
        (case dims2 (shape grad) of
           None \<Rightarrow> Inl ValueError
         | Some (ind, outd) \<Rightarrow>
             (let s = side_of cfg ind outd
              in bind_err (if s \<noteq> ''right''
                           then bind_err (partial_left P cfg grad dcomp outd)
                                  (\<lambda>(d, p). Inr (Some d, p))
                           else Inr (None, None)) (\<lambda>(new_l_data, new_l_proj).
                 bind_err (if s \<noteq> ''left''
                           then bind_err (partial_right P cfg grad dcomp ind)
                                  (\<lambda>(d, p). Inr (Some d, p))
                           else Inr (None, None)) (\<lambda>(new_r_data, new_r_proj).
                 Inr (TwoSideRandomDecomposition new_l_data new_l_proj new_r_data new_r_proj))))))"

text \<open>
  \<open>jnp.mod(x, k)\<close> on \<open>int32\<close>: for \<open>k \<noteq> 0\<close> the remainder has the sign of the divisor,
  as \<open>mod\<close> on \<open>int\<close> has, and for \<open>k = 0\<close> it is 0 whatever \<open>x\<close> is.
\<close>

definition jnp_mod :: "int \<Rightarrow> int \<Rightarrow> int" where
  "jnp_mod x k = (if k = 0 then 0 else x mod k)"

text \<open>
  The test \<open>jnp.mod(state.count, kappa) == 0\<close>. With \<open>kappa = 0\<close> it holds at every
  count: every step is a refresh. \<open>jax.lax.cond\<close> returns the result of the branch
  the predicate selects; the two branches return decompositions of one structure on
  the states \<open>init_fn\<close> and \<open>update_state\<close> produce.
\<close>

definition refresh_step :: "'a config \<Rightarrow> ('k, 'a) ScaleByFloraState \<Rightarrow> bool" where
  "refresh_step cfg state \<longleftrightarrow> jnp_mod (sint (count state)) (sint (kappa cfg)) = 0"

definition update_state ::
  "('k, 'a::field) prims \<Rightarrow> 'a config \<Rightarrow> 'a tensor list \<Rightarrow> ('k, 'a) ScaleByFloraState
   \<Rightarrow> error + ('k, 'a) ScaleByFloraState" where
  "update_state P cfg grads state =
     (let prngkey_tree = random_split_like_tree P (rng state) grads;
          r = next_rng_key P (rng state)
      in bind_err (if refresh_step cfg state
                   then tree_map3 (full_layer_fn P cfg) grads (decomposition state) prngkey_tree
                   else tree_map3 (partial_layer_fn P cfg) grads (decomposition state) prngkey_tree)
           (\<lambda>d. Inr \<lparr>count = count state + 1, decomposition = d, rng = r\<rparr>))"

subsection \<open>query\<close>

definition query_layer ::
  "('k, 'a::field) prims \<Rightarrow> 'a config \<Rightarrow> 'a tensor \<Rightarrow> ('k, 'a) decomposition \<Rightarrow> error + 'a tensor" where
  "query_layer P cfg grads dcomp =
     (if \<not> should_factorize cfg (shape grads) then get_data dcomp
      else
        (case dims2 (shape grads) of
           None \<Rightarrow> Inl ValueError
         | Some (ind, outd) \<Rightarrow>
             (let s = side_of cfg ind outd
              in if s = ''left'' then
                   bind_err (bind_err (get_l_proj dcomp) (\<lambda>p. stored_proj P cfg p (\<lambda>t. (outd, t))))
                     (\<lambda>l_proj.
                   bind_err (bind_err (get_l_data dcomp) need_tensor) (\<lambda>l_data.
                   bind_err (matmul l_proj l_data) transpose_t))
                 else if s = ''right'' then
                   bind_err (bind_err (get_r_proj dcomp) (\<lambda>p. stored_proj P cfg p (\<lambda>t. (t, ind))))
                     (\<lambda>r_proj.
                   bind_err (bind_err (get_r_data dcomp) need_tensor) (\<lambda>r_data.
                   bind_err (matmul r_data r_proj) transpose_t))
                 else
                   bind_err (bind_err (get_r_proj dcomp) (\<lambda>p. stored_proj P cfg p (\<lambda>t. (t, ind))))
                     (\<lambda>r_proj.
                   bind_err (bind_err (get_l_proj dcomp) (\<lambda>p. stored_proj P cfg p (\<lambda>t. (outd, t))))
                     (\<lambda>l_proj.
                   bind_err (bind_err (get_l_data dcomp) need_tensor) (\<lambda>l_data.
                   bind_err (bind_err (get_r_data dcomp) need_tensor) (\<lambda>r_data.
                   bind_err (matmul r_data r_proj) (\<lambda>rr.
                   bind_err (matmul l_proj l_data) (\<lambda>ll.
                   bind_err (tadd rr ll) (\<lambda>both.
                   bind_err (transpose_t both) (\<lambda>both_T.
                   Inr (div_scalar both_T 2))))))))))))"

definition query ::
  "('k, 'a::field) prims \<Rightarrow> 'a config \<Rightarrow> 'a tensor list \<Rightarrow> ('k, 'a) ScaleByFloraState
   \<Rightarrow> error + 'a tensor list" where
  "query P cfg grads state = tree_map2 (query_layer P cfg) grads (decomposition state)"

subsection \<open>update_fn\<close>

definition blend :: "'a::field config \<Rightarrow> 'a tensor \<Rightarrow> 'a tensor \<Rightarrow> error + 'a tensor" where
  \<comment> \<open>\<open>lambda m, g: m * beta + g * (1 - beta)\<close>\<close>
  "blend cfg m g = tadd (mul_scalar m (beta cfg)) (mul_scalar g (1 - beta cfg))"

definition update_fn ::
  "('k, 'a::field) prims \<Rightarrow> 'a config \<Rightarrow> 'a tensor list \<Rightarrow> ('k, 'a) ScaleByFloraState
   \<Rightarrow> error + 'a tensor list \<times> ('k, 'a) ScaleByFloraState" where
  "update_fn P cfg grads state =
     bind_err (query P cfg grads state) (\<lambda>ms.
     bind_err (tree_map2 (blend cfg) ms grads) (\<lambda>updates.
     bind_err (update_state P cfg grads state) (\<lambda>new_state.
     Inr (updates, new_state))))"

section \<open>Well-formed states and the formulas of the specification\<close>

text \<open>
  The decomposition \<open>init_fn\<close> allocates for a parameter of shape \<open>shp\<close>: a full-size
  buffer when the policy does not factorize, and otherwise, for \<open>shp = [ind, outd]\<close> and
  rank \<open>t\<close>, a left side (data \<open>[t, ind]\<close>, projection \<open>[outd, t]\<close>) unless the side is
  \<open>right\<close> and a right side (data \<open>[outd, t]\<close>, projection \<open>[t, ind]\<close>) unless the side
  is \<open>left\<close>; a projection is a key exactly in \<open>rng_only\<close> mode.
\<close>

definition wf_proj :: "'a config \<Rightarrow> nat list \<Rightarrow> ('k, 'a) proj \<Rightarrow> bool" where
  "wf_proj cfg shp p = (case p of Key k \<Rightarrow> rng_only cfg | Mat m \<Rightarrow> \<not> rng_only cfg \<and> shape m = shp)"

definition wf_side ::
  "'a config \<Rightarrow> bool \<Rightarrow> nat list \<Rightarrow> nat list \<Rightarrow> 'a tensor option \<Rightarrow> ('k, 'a) proj option \<Rightarrow> bool" where
  "wf_side cfg populated dshape pshape dat prj =
     (if populated then
        (case (dat, prj) of
           (Some d, Some p) \<Rightarrow> shape d = dshape \<and> wf_proj cfg pshape p
         | _ \<Rightarrow> False)
      else dat = None \<and> prj = None)"

definition wf_dcomp :: "'a config \<Rightarrow> nat list \<Rightarrow> ('k, 'a) decomposition \<Rightarrow> bool" where
  "wf_dcomp cfg shp d =
     (if should_factorize cfg shp then
        (case (dims2 shp, tau cfg, d) of
           (Some (ind, outd), Some t, TwoSideRandomDecomposition ld lp rd rp) \<Rightarrow>
               wf_side cfg (side_of cfg ind outd \<noteq> ''right'') [t, ind] [outd, t] ld lp
             \<and> wf_side cfg (side_of cfg ind outd \<noteq> ''left'') [outd, t] [t, ind] rd rp
         | _ \<Rightarrow> False)
      else (case d of NaiveDecomposition x \<Rightarrow> shape x = shp | _ \<Rightarrow> False))"

definition wf_state :: "'a config \<Rightarrow> nat list list \<Rightarrow> ('k, 'a) ScaleByFloraState \<Rightarrow> bool" where
  "wf_state cfg shapes state = list_all2 (wf_dcomp cfg) shapes (decomposition state)"

text \<open>The matrix a stored projection stands for, and the key a refresh draws from.\<close>

definition proj_matrix :: "('k, 'a::field) prims \<Rightarrow> ('k, 'a) proj \<Rightarrow> nat \<times> nat \<Rightarrow> 'a tensor" where
  "proj_matrix P p shp = (case p of Key k \<Rightarrow> random_generate P k shp | Mat m \<Rightarrow> m)"

definition fresh_key :: "('k, 'a) prims \<Rightarrow> ('k, 'a) proj \<Rightarrow> 'k \<Rightarrow> 'k" where
  "fresh_key P p key = (case p of Key k \<Rightarrow> next_rng_key P k | Mat m \<Rightarrow> key)"

text \<open>
  The refresh formulas as the specification words them:
  \<open>beta * (new_l_proj^T @ old_l_proj @ old_l_data) + (1 - beta) * (new_l_proj^T @ grad^T)\<close>
  on the left and
  \<open>beta * (old_r_data @ old_r_proj @ new_r_proj^T) + (1 - beta) * (grad^T @ new_r_proj^T)\<close>
  on the right.
\<close>

definition refresh_left ::
  "'a::field \<Rightarrow> 'a tensor \<Rightarrow> 'a tensor \<Rightarrow> 'a tensor \<Rightarrow> 'a tensor \<Rightarrow> 'a tensor" where
  "refresh_left b new_l_proj old_l_proj old_l_data grad =
     ema b (mat_mul (mat_mul (mat_T new_l_proj) old_l_proj) old_l_data)
           (mat_mul (mat_T new_l_proj) (mat_T grad))"

definition refresh_right ::
  "'a::field \<Rightarrow> 'a tensor \<Rightarrow> 'a tensor \<Rightarrow> 'a tensor \<Rightarrow> 'a tensor \<Rightarrow> 'a tensor" where
  "refresh_right b new_r_proj old_r_proj old_r_data grad =
     ema b (mat_mul (mat_mul old_r_data old_r_proj) (mat_T new_r_proj))
           (mat_mul (mat_T grad) (mat_T new_r_proj))"

text \<open>The projection a refresh stores: the fresh key, or the matrix generated from it.\<close>

definition refreshed_proj ::
  "('k, 'a::field) prims \<Rightarrow> 'a config \<Rightarrow> ('k, 'a) proj \<Rightarrow> 'k \<Rightarrow> nat \<times> nat \<Rightarrow> ('k, 'a) proj" where
  "refreshed_proj P cfg p key shp =
     (if rng_only cfg then Key (fresh_key P p key)
      else Mat (random_generate P (fresh_key P p key) shp))"

text \<open>
  The moment a decomposition stands for, as the specification words it: the buffer of a
  naive decomposition, \<open>(l_proj @ l_data)\<close> transposed when the left side is populated,
  \<open>(r_data @ r_proj)\<close> transposed when the right side is, and the average of the two
  when both are. \<open>shp\<close> is the shape \<open>[ind, outd]\<close> of the parameter.
\<close>

definition rank_of :: "'a config \<Rightarrow> nat" where
  "rank_of cfg = (case tau cfg of None \<Rightarrow> 0 | Some t \<Rightarrow> t)"

fun reconstruct ::
  "('k, 'a::field) prims \<Rightarrow> 'a config \<Rightarrow> nat list \<Rightarrow> ('k, 'a) decomposition \<Rightarrow> 'a tensor" where
  "reconstruct P cfg shp (NaiveDecomposition x) = x"
| "reconstruct P cfg shp (TwoSideRandomDecomposition (Some ld) (Some lp) None None) =
     mat_T (mat_mul (proj_matrix P lp (shp ! Suc 0, rank_of cfg)) ld)"
| "reconstruct P cfg shp (TwoSideRandomDecomposition None None (Some rd) (Some rp)) =
     mat_T (mat_mul rd (proj_matrix P rp (rank_of cfg, shp ! 0)))"
| "reconstruct P cfg shp (TwoSideRandomDecomposition (Some ld) (Some lp) (Some rd) (Some rp)) =
     div_scalar
       (mat_T (add_t (mat_mul rd (proj_matrix P rp (rank_of cfg, shp ! 0)))
                     (mat_mul (proj_matrix P lp (shp ! Suc 0, rank_of cfg)) ld))) 2"
| "reconstruct P cfg shp (TwoSideRandomDecomposition ld lp rd rp) = zeros shp"

text \<open>The variant of a decomposition: naive, or factored with the fields that are populated.\<close>

datatype variant = Naive | Factored bool bool bool bool

fun variant_of :: "('k, 'a) decomposition \<Rightarrow> variant" where
  "variant_of (NaiveDecomposition d) = Naive"
| "variant_of (TwoSideRandomDecomposition ld lp rd rp) =
     Factored (ld \<noteq> None) (lp \<noteq> None) (rd \<noteq> None) (rp \<noteq> None)"

text \<open>The stored projections of a decomposition.\<close>

fun projections :: "('k, 'a) decomposition \<Rightarrow> ('k, 'a) proj option \<times> ('k, 'a) proj option" where
  "projections (NaiveDecomposition d) = (None, None)"
| "projections (TwoSideRandomDecomposition ld lp rd rp) = (lp, rp)"

text \<open>A training run: \<open>update_fn\<close> applied to a sequence of gradient trees.\<close>

fun run_updates ::
  "('k, 'a::field) prims \<Rightarrow> 'a config \<Rightarrow> ('k, 'a) ScaleByFloraState \<Rightarrow> 'a tensor list list
   \<Rightarrow> error + ('k, 'a) ScaleByFloraState" where
  "run_updates P cfg state [] = Inr state"
| "run_updates P cfg state (grads # rest) =
     bind_err (update_fn P cfg grads state) (\<lambda>(updates, new_state).
       run_updates P cfg new_state rest)"

section \<open>The plain momentum estimator of the specification\<close>

text \<open>
  The exponential-moving-average estimator the specification compares with: one buffer
  per parameter, starting at zero, and \<open>data' = beta * data + (1 - beta) * grad\<close> at
  every step. \<open>ema_run b ms gss\<close> is the list of buffers after the steps \<open>gss\<close>.
\<close>

fun ema_run :: "'a::field \<Rightarrow> 'a tensor list \<Rightarrow> 'a tensor list list \<Rightarrow> 'a tensor list" where
  "ema_run b ms [] = ms"
| "ema_run b ms (grads # rest) = ema_run b (map2 (ema b) ms grads) rest"

section \<open>The optimizer assemblies (flora, adafactor)\<close>

text \<open>The arguments of \<open>flora\<close>.\<close>

record ('a, 'lr) flora_args =
  f_learning_rate :: 'lr
  f_b1 :: 'a
  f_b2 :: 'a
  f_tau :: "nat option"
  f_seed :: int
  f_kappa :: "32 word"
  f_clipping_threshold :: "'a option"
  f_multiply_by_parameter_scale :: bool
  f_weight_decay :: "'lr option"
  f_eps :: 'a
  f_rng_only :: bool
  f_min_dim_size_to_factor :: int
  f_factorized_second_moment :: bool
  f_side :: string

text \<open>
  The call \<open>scale_by_flora(factored=tau is not None, beta=b1, tau=tau, seed=seed,
  kappa=kappa, rng_only=rng_only, min_dim_size_to_factor=..., side=side)\<close> in \<open>flora\<close>.
\<close>

definition flora_moment_cfg :: "('a, 'lr) flora_args \<Rightarrow> 'a config" where
  "flora_moment_cfg a =
     \<lparr>factored = (f_tau a \<noteq> None), beta = f_b1 a, tau = f_tau a, seed = f_seed a,
      kappa = f_kappa a, rng_only = f_rng_only a,
      min_dim_size_to_factor = f_min_dim_size_to_factor a, side = f_side a\<rparr>"

text \<open>
  A gradient transformation: \<open>t_init(params)\<close> and
  \<open>t_update(updates, state, params, ...)\<close>, where the two leading transformations of a
  chain may get two more positional arguments (the running \<open>updates\<close> and
  \<open>query_only\<close>), \<open>None\<close> when they are not passed. Either may raise. The
  chains are called without \<open>extra_args\<close>.
\<close>

record ('g, 'p, 's) transformation =
  t_init :: "'p \<Rightarrow> error + 's"
  t_update :: "'g \<Rightarrow> 's \<Rightarrow> 'p option \<Rightarrow> 'g option \<Rightarrow> bool option \<Rightarrow> error + 'g \<times> 's"

text \<open>
  The transformations the assemblies take from optax and from
  \<open>src/optimizers/optax/utils.py\<close> (not among the sources) are parameters:
  \<open>scale_by_factored_rms(factored, decay_rate, decay_offset, min_dim_size_to_factor,
  epsilon)\<close> (\<open>decay_offset\<close> is \<open>None\<close> where the caller leaves it to its default),
  \<open>clip_by_block_rms(threshold)\<close>, \<open>scale_by_learning_rate(learning_rate, flip_sign)\<close>,
  \<open>scale_by_param_block_rms()\<close>, \<open>add_decayed_weights(weight_decay, mask)\<close>,
  \<open>scale(step_size)\<close>, \<open>ema(decay, debias)\<close> and \<open>scale_by_sign()\<close>.
\<close>

record ('a, 'lr, 'm, 'g, 'p, 's) library =
  scale_by_factored_rms ::
    "bool \<Rightarrow> 'a \<Rightarrow> int option \<Rightarrow> int \<Rightarrow> 'a \<Rightarrow> ('g, 'p, 's) transformation"
  clip_by_block_rms :: "'a \<Rightarrow> ('g, 'p, 's) transformation"
  scale_by_learning_rate :: "'lr \<Rightarrow> bool \<Rightarrow> ('g, 'p, 's) transformation"
  scale_by_param_block_rms :: "('g, 'p, 's) transformation"
  add_decayed_weights :: "'lr \<Rightarrow> 'm option \<Rightarrow> ('g, 'p, 's) transformation"
  scale_by :: "'a \<Rightarrow> ('g, 'p, 's) transformation"
  ema_momentum :: "'a \<Rightarrow> bool \<Rightarrow> ('g, 'p, 's) transformation"
  scale_by_sign :: "('g, 'p, 's) transformation"

text \<open>
  The state of a link of the Flora chain: the state of \<open>scale_by_flora\<close>, or the state
  of a library transformation.
\<close>

datatype ('k, 'a, 'o) link_state = FloraState "('k, 'a) ScaleByFloraState" | LibraryState 'o

text \<open>
  \<open>scale_by_flora(...)\<close> as a transformation: \<open>optax.GradientTransformation(init_fn,
  update_fn)\<close>. Its \<open>update_fn(grads, state, params=None)\<close> takes no further argument
  (a TypeError), and a state that is not a \<open>ScaleByFloraState\<close> has no \<open>decomposition\<close>
  (an AttributeError).
\<close>

definition scale_by_flora ::
  "('k, 'a::field) prims \<Rightarrow> 'a config
   \<Rightarrow> ('a tensor list, 'a tensor list, ('k, 'a, 'o) link_state) transformation" where
  "scale_by_flora P cfg =
     \<lparr>t_init = (\<lambda>params. bind_err (init_fn P cfg params) (\<lambda>s. Inr (FloraState s))),
      t_update = (\<lambda>grads state params updates query_only.
         if updates \<noteq> None \<or> query_only \<noteq> None then Inl TypeError
         else (case state of
                 LibraryState s \<Rightarrow> Inl AttributeError
               | FloraState s \<Rightarrow>
                   bind_err (update_fn P cfg grads s) (\<lambda>(u, s'). Inr (u, FloraState s'))))\<rparr>"

text \<open>The list \<open>tx\<close> that \<open>flora\<close> builds.\<close>

definition flora_tx ::
  "('a::field, 'lr, 'm, 'a tensor list, 'a tensor list, ('k, 'a, 'o) link_state) library
   \<Rightarrow> ('k, 'a) prims \<Rightarrow> ('a, 'lr) flora_args
   \<Rightarrow> ('a tensor list, 'a tensor list, ('k, 'a, 'o) link_state) transformation list" where
  "flora_tx L P a =
     [scale_by_flora P (flora_moment_cfg a)]
     @ [scale_by_factored_rms L (f_factorized_second_moment a) (f_b2 a) None
          (f_min_dim_size_to_factor a) (f_eps a)]
     @ (case f_clipping_threshold a of None \<Rightarrow> [] | Some c \<Rightarrow> [clip_by_block_rms L c])
     @ [scale_by_learning_rate L (f_learning_rate a) False]
     @ (if f_multiply_by_parameter_scale a then [scale_by_param_block_rms L] else [])
     @ (case f_weight_decay a of None \<Rightarrow> [] | Some w \<Rightarrow> [add_decayed_weights L w None])
     @ [scale_by L (- 1)]"

text \<open>\<open>init_fn\<close> of both assemblies: \<open>tuple(fn(params) for fn in init_fns)\<close>.\<close>

definition chain_init :: "('g, 'p, 's) transformation list \<Rightarrow> 'p \<Rightarrow> error + 's list" where
  "chain_init tx params = sequence_err (map (\<lambda>t. t_init t params) tx)"

text \<open>
  The loop \<open>for s, fn in zip(state[i:], update_fns[i:])\<close> of both assemblies, returning
  the final updates and the new states it appended.
\<close>

fun chain_rest ::
  "'s list \<Rightarrow> ('g, 'p, 's) transformation list \<Rightarrow> 'g \<Rightarrow> 'p option \<Rightarrow> error + 'g \<times> 's list" where
  "chain_rest (s # ss) (fn # fns) updates params =
     bind_err (t_update fn updates s params None None) (\<lambda>(updates', new_s).
     bind_err (chain_rest ss fns updates' params) (\<lambda>(final, new_rest).
     Inr (final, new_s # new_rest)))"
| "chain_rest ss fns updates params = Inr (updates, [])"

definition flora_update_fn ::
  "('a::field, 'lr, 'm, 'a tensor list, 'a tensor list, ('k, 'a, 'o) link_state) library
   \<Rightarrow> ('k, 'a) prims \<Rightarrow> ('a, 'lr) flora_args
   \<Rightarrow> 'a tensor list \<Rightarrow> ('k, 'a, 'o) link_state list \<Rightarrow> 'a tensor list option
   \<Rightarrow> error + 'a tensor list \<times> ('k, 'a, 'o) link_state list" where
  "flora_update_fn L P a grads state params =
     (let tx = flora_tx L P a
      in if length tx \<noteq> length state then Inl ValueError
         else
           bind_err (t_update (tx ! 0) grads (state ! 0) params None None) (\<lambda>(updates, new_s0).
           bind_err (t_update (tx ! 1) grads (state ! 1) params (Some updates) None)
             (\<lambda>(updates, new_s1).
           bind_err (chain_rest (drop 2 state) (drop 2 tx) updates params) (\<lambda>(updates, new_rest).
           Inr (updates, new_s0 # new_s1 # new_rest)))))"

text \<open>The arguments of \<open>adafactor\<close> (\<open>dtype_momentum\<close> is not embedded).\<close>

record ('a, 'lr, 'm) adafactor_args =
  a_learning_rate :: "'lr option"
  a_min_dim_size_to_factor :: int
  a_decay_rate :: 'a
  a_decay_offset :: int
  a_multiply_by_parameter_scale :: bool
  a_clipping_threshold :: "'a option"
  a_momentum :: "'a option"
  a_weight_decay_rate :: "'lr option"
  a_eps :: 'a
  a_factored :: bool
  a_weight_decay_mask :: "'m option"
  a_sign :: bool

definition adafactor_tx ::
  "('a::field, 'lr, 'm, 'g, 'p, 's) library \<Rightarrow> ('a, 'lr, 'm) adafactor_args
   \<Rightarrow> ('g, 'p, 's) transformation list" where
  "adafactor_tx L a =
     (case a_momentum a of None \<Rightarrow> [] | Some m \<Rightarrow> [ema_momentum L m False])
     @ [if a_sign a then scale_by_sign L
        else scale_by_factored_rms L (a_factored a) (a_decay_rate a) (Some (a_decay_offset a))
               (a_min_dim_size_to_factor a) (a_eps a)]
     @ (case a_clipping_threshold a of None \<Rightarrow> [] | Some c \<Rightarrow> [clip_by_block_rms L c])
     @ (case a_learning_rate a of None \<Rightarrow> [] | Some lr \<Rightarrow> [scale_by_learning_rate L lr False])
     @ (if a_multiply_by_parameter_scale a then [scale_by_param_block_rms L] else [])
     @ (case a_weight_decay_rate a of
          None \<Rightarrow> []
        | Some w \<Rightarrow> [add_decayed_weights L w (a_weight_decay_mask a)])
     @ [scale_by L (- 1)]"

definition adafactor_update_fn ::
  "('a::field, 'lr, 'm, 'g, 'p, 's) library \<Rightarrow> ('a, 'lr, 'm) adafactor_args
   \<Rightarrow> 'g \<Rightarrow> 's list \<Rightarrow> 'p option \<Rightarrow> bool \<Rightarrow> error + 'g \<times> 's list" where
  "adafactor_update_fn L a grads state params query_only =
     (let tx = adafactor_tx L a
      in if length tx \<noteq> length state then Inl ValueError
         else if a_momentum a \<noteq> None then
           bind_err (t_update (tx ! 0) grads (state ! 0) params None None) (\<lambda>(updates, new_s0).
           bind_err (t_update (tx ! 1) grads (state ! 1) params (Some updates) (Some query_only))
             (\<lambda>(updates, new_s1).
           bind_err (chain_rest (drop 2 state) (drop 2 tx) updates params) (\<lambda>(updates, new_rest).
           Inr (updates, new_s0 # new_s1 # new_rest))))
         else
           bind_err (t_update (tx ! 0) grads (state ! 0) params (Some grads) (Some query_only))
             (\<lambda>(updates, new_s0).
           bind_err (chain_rest (drop 1 state) (drop 1 tx) updates params) (\<lambda>(updates, new_rest).
           Inr (updates, new_s0 # new_rest))))"

section \<open>Concrete inputs\<close>

text \<open>The defaults of \<open>flora\<close>: \<open>b1 = 0.9\<close>, \<open>tau = 4\<close>, \<open>kappa = 1000\<close>.\<close>

definition default_cfg :: "rat config" where
  "default_cfg = \<lparr>factored = True, beta = 9 / 10, tau = Some 4, seed = 0, kappa = 1000,
     rng_only = False, min_dim_size_to_factor = 128, side = ''auto''\<rparr>"

text \<open>
  Small inputs for evaluation. Keys are natural numbers and the primitives are simple
  deterministic functions of them; \<open>sqrt_of\<close> is the integer square root, exact on the
  perfect squares, which are the only arguments it gets below (the smaller dimension
  of a projection is the rank \<open>tau = 1\<close>).
\<close>

definition floor_sqrt :: "nat \<Rightarrow> nat" where
  "floor_sqrt n = last (filter (\<lambda>k. k * k \<le> n) [0..<Suc n])"

definition test_prims :: "(nat, rat) prims" where
  "test_prims = \<lparr>PRNGKey = (\<lambda>s. nat \<bar>s\<bar>), split = (\<lambda>k. (2 * k + 1, 2 * k + 2)),
     next_rng_key = (\<lambda>k. 3 * k + 1), tree_key = (\<lambda>k n i. 5 * k + i + 1),
     normal = (\<lambda>k shp i. of_nat (k + i) / 2), orthogonal = (\<lambda>k shp i. of_nat (k + i)),
     sqrt_of = (\<lambda>n. of_nat (floor_sqrt n))\<rparr>"

definition small_cfg :: "rat config" where
  "small_cfg = \<lparr>factored = True, beta = 9 / 10, tau = Some 1, seed = 0, kappa = 2,
     rng_only = False, min_dim_size_to_factor = 2, side = ''auto''\<rparr>"

definition small_params :: "rat tensor list" where
  "small_params = [zeros [2, 3], zeros [3]]"

definition small_grads :: "rat tensor list" where
  "small_grads = [Tensor [2, 3] [1, 2, 3, 4, 5, 6], Tensor [3] [1, 1, 1]]"

text \<open>The state \<open>init_fn\<close> returns on \<open>small_params\<close>, and the state after one update.\<close>

definition small_state0 :: "(nat, rat) ScaleByFloraState" where
  "small_state0 = \<lparr>count = 0,
     decomposition =
       [TwoSideRandomDecomposition None None
          (Some (Tensor [3, 1] [0, 0, 0])) (Some (Mat (Tensor [1, 2] [2, 5 / 2]))),
        NaiveDecomposition (Tensor [3] [0, 0, 0])],
     rng = 0\<rparr>"

definition small_state1 :: "(nat, rat) ScaleByFloraState" where
  "small_state1 = \<lparr>count = 1,
     decomposition =
       [TwoSideRandomDecomposition None None
          (Some (Tensor [3, 1] [6 / 5, 33 / 20, 21 / 10])) (Some (Mat (Tensor [1, 2] [2, 5 / 2]))),
        NaiveDecomposition (Tensor [3] [1 / 10, 1 / 10, 1 / 10])],
     rng = 1\<rparr>"

definition small_moments1 :: "rat tensor list" where
  \<comment> \<open>what \<open>query\<close> returns in \<open>small_state1\<close>\<close>
  "small_moments1 =
     [Tensor [2, 3] [12 / 5, 33 / 10, 21 / 5, 3, 33 / 8, 21 / 4],
      Tensor [3] [1 / 10, 1 / 10, 1 / 10]]"

definition small_updates1 :: "rat tensor list" where
  \<comment> \<open>what \<open>update_fn\<close> emits in \<open>small_state1\<close>\<close>
  "small_updates1 =
     [Tensor [2, 3] [113 / 50, 317 / 100, 102 / 25, 31 / 10, 337 / 80, 213 / 40],
      Tensor [3] [19 / 100, 19 / 100, 19 / 100]]"

definition small_state2 :: "(nat, rat) ScaleByFloraState" where
  \<comment> \<open>the state after two updates\<close>
  "small_state2 = \<lparr>count = 2,
     decomposition =
       [TwoSideRandomDecomposition None None
          (Some (Tensor [3, 1] [57 / 25, 627 / 200, 399 / 100]))
          (Some (Mat (Tensor [1, 2] [2, 5 / 2]))),
        NaiveDecomposition (Tensor [3] [19 / 100, 19 / 100, 19 / 100])],
     rng = 4\<rparr>"

definition small_state3 :: "(nat, rat) ScaleByFloraState" where
  \<comment> \<open>the state after three updates; the third is a refresh (\<open>kappa = 2\<close>)\<close>
  "small_state3 = \<lparr>count = 3,
     decomposition =
       [TwoSideRandomDecomposition None None
          (Some (Tensor [3, 1] [216913 / 1000, 2388043 / 8000, 1520391 / 4000]))
          (Some (Mat (Tensor [1, 2] [22, 45 / 2]))),
        NaiveDecomposition (Tensor [3] [271 / 1000, 271 / 1000, 271 / 1000])],
     rng = 13\<rparr>"

text \<open>\<open>flora\<close> called with \<open>tau = None\<close> and its other defaults.\<close>

definition no_tau_args :: "(rat, rat) flora_args" where
  "no_tau_args = \<lparr>f_learning_rate = 1 / 100, f_b1 = 9 / 10, f_b2 = 99 / 100, f_tau = None,
     f_seed = 0, f_kappa = 1000, f_clipping_threshold = Some 1,
     f_multiply_by_parameter_scale = True, f_weight_decay = None,
     f_eps = 1 / 1000000, f_rng_only = False,
     f_min_dim_size_to_factor = 128, f_factorized_second_moment = True, f_side = ''auto''\<rparr>"

text \<open>
  A configuration whose \<open>side\<close> is none of \<open>left\<close>, \<open>right\<close>, \<open>auto\<close>, the state
  \<open>init_fn\<close> returns for it on \<open>small_params\<close>, and the state after one update.
\<close>

definition both_cfg :: "rat config" where
  "both_cfg = \<lparr>factored = True, beta = 9 / 10, tau = Some 1, seed = 0, kappa = 2,
     rng_only = False, min_dim_size_to_factor = 2, side = ''both''\<rparr>"

definition both_state0 :: "(nat, rat) ScaleByFloraState" where
  "both_state0 = \<lparr>count = 0,
     decomposition =
       [TwoSideRandomDecomposition
          (Some (Tensor [1, 2] [0, 0])) (Some (Mat (Tensor [3, 1] [3 / 2, 2, 5 / 2])))
          (Some (Tensor [3, 1] [0, 0, 0])) (Some (Mat (Tensor [1, 2] [2, 5 / 2]))),
        NaiveDecomposition (Tensor [3] [0, 0, 0])],
     rng = 0\<rparr>"

definition both_state1 :: "(nat, rat) ScaleByFloraState" where
  "both_state1 = \<lparr>count = 1,
     decomposition =
       [TwoSideRandomDecomposition
          (Some (Tensor [1, 2] [13 / 10, 31 / 10])) (Some (Mat (Tensor [3, 1] [3 / 2, 2, 5 / 2])))
          (Some (Tensor [3, 1] [6 / 5, 33 / 20, 21 / 10])) (Some (Mat (Tensor [1, 2] [2, 5 / 2]))),
        NaiveDecomposition (Tensor [3] [1 / 10, 1 / 10, 1 / 10])],
     rng = 1\<rparr>"

text \<open>
  Stand-ins for the library transformations: stateless, \<open>scale_by\<close> multiplies every
  update by its step size and the others pass the updates on.
\<close>

definition stateless ::
  "('g \<Rightarrow> 'g) \<Rightarrow> ('g, 'p, ('k, 'a, unit) link_state) transformation" where
  "stateless f =
     \<lparr>t_init = (\<lambda>params. Inr (LibraryState ())),
      t_update = (\<lambda>updates state params running query_only.
         Inr (f (case running of None \<Rightarrow> updates | Some u \<Rightarrow> u), state))\<rparr>"

definition test_library ::
  "(rat, rat, unit, rat tensor list, rat tensor list, (nat, rat, unit) link_state) library" where
  "test_library =
     \<lparr>scale_by_factored_rms = (\<lambda>f d off m e. stateless id),
      clip_by_block_rms = (\<lambda>c. stateless id),
      scale_by_learning_rate = (\<lambda>lr flip. stateless id),
      scale_by_param_block_rms = stateless id,
      add_decayed_weights = (\<lambda>w mask. stateless id),
      scale_by = (\<lambda>c. stateless (map (smul c))),
      ema_momentum = (\<lambda>m debias. stateless id),
      scale_by_sign = stateless id\<rparr>"

definition small_args :: "(rat, rat) flora_args" where
  "small_args = \<lparr>f_learning_rate = 1 / 100, f_b1 = 9 / 10, f_b2 = 99 / 100, f_tau = Some 1,
     f_seed = 0, f_kappa = 2, f_clipping_threshold = Some 1,
     f_multiply_by_parameter_scale = True, f_weight_decay = None,
     f_eps = 1 / 1000000, f_rng_only = False,
     f_min_dim_size_to_factor = 2, f_factorized_second_moment = True, f_side = ''auto''\<rparr>"

definition default_adafactor_args :: "(rat, rat, unit) adafactor_args" where
  "default_adafactor_args = \<lparr>a_learning_rate = None, a_min_dim_size_to_factor = 128,
     a_decay_rate = 4 / 5, a_decay_offset = 0, a_multiply_by_parameter_scale = True,
     a_clipping_threshold = Some 1, a_momentum = None, a_weight_decay_rate = None,
     a_eps = 1 / 1000000, a_factored = True, a_weight_decay_mask = None, a_sign = False\<rparr>"

section \<open>Lemmas about the embedding\<close>

lemma bind_err_Inr [simp]: "bind_err (Inr x) f = f x"
  by (simp add: bind_err_def)

lemma bind_err_Inl [simp]: "bind_err (Inl e) f = Inl e"
  by (simp add: bind_err_def)

lemma bind_err_eq_Inr: "bind_err r f = Inr y \<longleftrightarrow> (\<exists>x. r = Inr x \<and> f x = Inr y)"
  by (cases r) simp_all

lemma shape_smul [simp]: "shape (smul c t) = shape t"
  by (simp add: smul_def)

lemma shape_mul_scalar [simp]: "shape (mul_scalar t c) = shape t"
  by (simp add: mul_scalar_def)

lemma shape_div_scalar [simp]: "shape (div_scalar t c) = shape t"
  by (simp add: div_scalar_def)

lemma shape_zeros [simp]: "shape (zeros shp) = shp"
  by (simp add: zeros_def)

lemma shape_add_t [simp]: "shape (add_t a b) = shape a"
  by (simp add: add_t_def)

lemma shape_ema [simp]: "shape (ema b h obs) = shape h"
  by (simp add: ema_def)

lemma shape_mat_T [simp]: "shape (mat_T t) = [shape t ! Suc 0, shape t ! 0]"
  by (simp add: mat_T_def Let_def)

lemma shape_mat_mul [simp]: "shape (mat_mul a b) = [shape a ! 0, shape b ! Suc 0]"
  by (simp add: mat_mul_def Let_def)

lemma shape_random_generate [simp]: "shape (random_generate P k (a, b)) = [a, b]"
  by (simp add: random_generate_def)

lemma tadd_ema: "shape h = shape obs \<Longrightarrow> tadd (smul b h) (smul (1 - b) obs) = Inr (ema b h obs)"
  by (simp add: tadd_def add_t_def smul_def ema_def zip_map_map case_prod_unfold)

lemma transpose_t_matrix: "length (shape t) = 2 \<Longrightarrow> transpose_t t = Inr (mat_T t)"
  by (simp add: transpose_t_def)

lemma matmul_matrix:
  "length (shape a) = 2 \<Longrightarrow> length (shape b) = 2 \<Longrightarrow> shape a ! Suc 0 = shape b ! 0
   \<Longrightarrow> matmul a b = Inr (mat_mul a b)"
  by (simp add: matmul_def)

lemma should_factorize_dims:
  "should_factorize cfg shp \<Longrightarrow> \<exists>ind outd. shp = [ind, outd]"
  by (cases shp; cases "tl shp"; cases "tl (tl shp)") (auto simp: should_factorize_def split: if_splits)

lemma stored_proj_wf:
  "tau cfg = Some t \<Longrightarrow> wf_proj cfg [a, b] p
   \<Longrightarrow> stored_proj P cfg (Some p) (\<lambda>t. (f t, g t)) = Inr (proj_matrix P p (f t, g t))"
  by (cases p) (simp_all add: stored_proj_def wf_proj_def proj_matrix_def generate_tau_def)

lemma shape_proj_matrix:
  "wf_proj cfg [a, b] p \<Longrightarrow> shape (proj_matrix P p (a, b)) = [a, b]"
  by (cases p) (simp_all add: wf_proj_def proj_matrix_def)

lemma new_key_wf:
  "wf_proj cfg shp p \<Longrightarrow> new_key P cfg (Some p) key = Inr (fresh_key P p key)"
  by (cases p) (simp_all add: new_key_def wf_proj_def fresh_key_def)

lemma full_left_ok:
  assumes g: "shape g = [ind, outd]" and t: "tau cfg = Some t"
    and d: "shape d = [t, ind]" and p: "wf_proj cfg [outd, t] p"
  shows "full_left P cfg g (TwoSideRandomDecomposition (Some d) (Some p) rd rp) l_key outd
         = Inr (refresh_left (beta cfg) (random_generate P (fresh_key P p l_key) (outd, t))
                  (proj_matrix P p (outd, t)) d g,
                refreshed_proj P cfg p l_key (outd, t))"
  using g t d shape_proj_matrix [OF p, of P]
  by (simp add: full_left_def stored_proj_wf [OF t p, of P "\<lambda>t. outd" "\<lambda>t. t", simplified] new_key_wf [OF p] generate_tau_def
        need_tensor_def multi_dot3_def transpose_t_matrix matmul_matrix tadd_ema refresh_left_def refreshed_proj_def)

lemma full_right_ok:
  assumes g: "shape g = [ind, outd]" and t: "tau cfg = Some t"
    and d: "shape d = [outd, t]" and p: "wf_proj cfg [t, ind] p"
  shows "full_right P cfg g (TwoSideRandomDecomposition ld lp (Some d) (Some p)) r_key ind
         = Inr (refresh_right (beta cfg) (random_generate P (fresh_key P p r_key) (t, ind))
                  (proj_matrix P p (t, ind)) d g,
                refreshed_proj P cfg p r_key (t, ind))"
  using g t d shape_proj_matrix [OF p, of P]
  by (simp add: full_right_def stored_proj_wf [OF t p, of P "\<lambda>t. t" "\<lambda>t. ind", simplified] new_key_wf [OF p] generate_tau_def
        need_tensor_def multi_dot3_def transpose_t_matrix matmul_matrix tadd_ema refresh_right_def refreshed_proj_def)

lemma partial_left_ok:
  assumes g: "shape g = [ind, outd]" and t: "tau cfg = Some t"
    and d: "shape d = [t, ind]" and p: "wf_proj cfg [outd, t] p"
  shows "partial_left P cfg g (TwoSideRandomDecomposition (Some d) (Some p) rd rp) outd
         = Inr (ema (beta cfg) d (mat_mul (mat_T (proj_matrix P p (outd, t))) (mat_T g)), Some p)"
  using g t d shape_proj_matrix [OF p, of P]
  by (simp add: partial_left_def stored_proj_wf [OF t p, of P "\<lambda>t. outd" "\<lambda>t. t", simplified]
        need_tensor_def transpose_t_matrix matmul_matrix tadd_ema)

lemma partial_right_ok:
  assumes g: "shape g = [ind, outd]" and t: "tau cfg = Some t"
    and d: "shape d = [outd, t]" and p: "wf_proj cfg [t, ind] p"
  shows "partial_right P cfg g (TwoSideRandomDecomposition ld lp (Some d) (Some p)) ind
         = Inr (ema (beta cfg) d (mat_mul (mat_T g) (mat_T (proj_matrix P p (t, ind)))), Some p)"
  using g t d shape_proj_matrix [OF p, of P]
  by (simp add: partial_right_def stored_proj_wf [OF t p, of P "\<lambda>t. t" "\<lambda>t. ind", simplified]
        need_tensor_def transpose_t_matrix matmul_matrix tadd_ema)


lemma sequence_err_Inr_iff: "sequence_err rs = Inr xs \<longleftrightarrow> rs = map Inr xs"
proof (induction rs arbitrary: xs)
  case Nil
  then show ?case by auto
next
  case (Cons r rs)
  show ?case
  proof (cases r)
    case (Inl e)
    then show ?thesis by (cases xs) auto
  next
    case (Inr x)
    then show ?thesis using Cons.IH by (cases xs) (auto simp: bind_err_eq_Inr)
  qed
qed

lemma map_upt_eq_map_iff:
  "map g [0..<n] = map h rs \<longleftrightarrow> length rs = n \<and> (\<forall>i<n. g i = h (rs ! i))"
  unfolding list_eq_iff_nth_eq by auto

lemma tree_map2_Inr_iff:
  "tree_map2 f xs ys = Inr rs \<longleftrightarrow>
     length ys = length xs \<and> length rs = length xs
     \<and> (\<forall>i<length xs. f (xs ! i) (ys ! i) = Inr (rs ! i))"
  by (simp add: tree_map2_def sequence_err_Inr_iff map_upt_eq_map_iff)

lemma tree_map3_Inr_iff:
  "tree_map3 f xs ys zs = Inr rs \<longleftrightarrow>
     length ys = length xs \<and> length zs = length xs \<and> length rs = length xs
     \<and> (\<forall>i<length xs. f (xs ! i) (ys ! i) (zs ! i) = Inr (rs ! i))"
  by (auto simp add: tree_map3_def sequence_err_Inr_iff map_upt_eq_map_iff)

lemma tree_map2_total:
  assumes "length ys = length xs" and "\<forall>i<length xs. \<exists>r. f (xs ! i) (ys ! i) = Inr r"
  shows "\<exists>rs. tree_map2 f xs ys = Inr rs"
proof -
  let ?rs = "map (\<lambda>i. projr (f (xs ! i) (ys ! i))) [0..<length xs]"
  have "tree_map2 f xs ys = Inr ?rs"
    unfolding tree_map2_Inr_iff using assms by auto
  then show ?thesis ..
qed

lemma tree_map3_total:
  assumes "length ys = length xs" and "length zs = length xs"
    and "\<forall>i<length xs. \<exists>r. f (xs ! i) (ys ! i) (zs ! i) = Inr r"
  shows "\<exists>rs. tree_map3 f xs ys zs = Inr rs"
proof -
  let ?rs = "map (\<lambda>i. projr (f (xs ! i) (ys ! i) (zs ! i))) [0..<length xs]"
  have "tree_map3 f xs ys zs = Inr ?rs"
    unfolding tree_map3_Inr_iff using assms by auto
  then show ?thesis ..
qed

lemma length_random_split_like_tree [simp]:
  "length (random_split_like_tree P k tree) = length tree"
  by (simp add: random_split_like_tree_def)

lemma wf_side_True:
  "wf_side cfg True ds ps dat prj \<longleftrightarrow>
     (\<exists>d p. dat = Some d \<and> prj = Some p \<and> shape d = ds \<and> wf_proj cfg ps p)"
  by (auto simp: wf_side_def split: option.splits)

lemma wf_side_False: "wf_side cfg False ds ps dat prj \<longleftrightarrow> dat = None \<and> prj = None"
  by (simp add: wf_side_def)

lemma wf_dcomp_naive:
  "\<not> should_factorize cfg shp \<Longrightarrow>
     wf_dcomp cfg shp d \<longleftrightarrow> (\<exists>x. d = NaiveDecomposition x \<and> shape x = shp)"
  by (cases d) (simp_all add: wf_dcomp_def)

lemma wf_dcomp_factored:
  "should_factorize cfg [ind, outd] \<Longrightarrow>
     wf_dcomp cfg [ind, outd] d \<longleftrightarrow>
       (\<exists>t ld lp rd rp. tau cfg = Some t \<and> d = TwoSideRandomDecomposition ld lp rd rp
          \<and> wf_side cfg (side_of cfg ind outd \<noteq> ''right'') [t, ind] [outd, t] ld lp
          \<and> wf_side cfg (side_of cfg ind outd \<noteq> ''left'') [outd, t] [t, ind] rd rp)"
  by (cases d; cases "tau cfg") (simp_all add: wf_dcomp_def)

lemma naive_fn_ok:
  "shape x = shape g \<Longrightarrow>
     naive_fn cfg g (NaiveDecomposition x) = Inr (NaiveDecomposition (ema (beta cfg) x g))"
  by (simp add: naive_fn_def tadd_ema)


lemma full_layer_fn_factored:
  assumes sf: "should_factorize cfg [ind, outd]" and g: "shape g = [ind, outd]"
    and t: "tau cfg = Some t"
    and wl: "wf_side cfg (side_of cfg ind outd \<noteq> ''right'') [t, ind] [outd, t] ld lp"
    and wr: "wf_side cfg (side_of cfg ind outd \<noteq> ''left'') [outd, t] [t, ind] rd rp"
    and k: "split P key = (l_key, r_key)"
  shows "full_layer_fn P cfg g (TwoSideRandomDecomposition ld lp rd rp) key =
     Inr (TwoSideRandomDecomposition
       (map_option (\<lambda>d. refresh_left (beta cfg)
           (random_generate P (fresh_key P (the lp) l_key) (outd, t))
           (proj_matrix P (the lp) (outd, t)) d g) ld)
       (map_option (\<lambda>p. refreshed_proj P cfg p l_key (outd, t)) lp)
       (map_option (\<lambda>d. refresh_right (beta cfg)
           (random_generate P (fresh_key P (the rp) r_key) (t, ind))
           (proj_matrix P (the rp) (t, ind)) d g) rd)
       (map_option (\<lambda>p. refreshed_proj P cfg p r_key (t, ind)) rp))"
proof -
  have l: "(if side_of cfg ind outd \<noteq> ''right''
            then bind_err (full_left P cfg g (TwoSideRandomDecomposition ld lp rd rp) l_key outd)
                   (\<lambda>(d, p). Inr (Some d, Some p))
            else Inr (None, None))
         = Inr (map_option (\<lambda>d. refresh_left (beta cfg)
                   (random_generate P (fresh_key P (the lp) l_key) (outd, t))
                   (proj_matrix P (the lp) (outd, t)) d g) ld,
                map_option (\<lambda>p. refreshed_proj P cfg p l_key (outd, t)) lp)"
    using wl by (auto simp: wf_side_True wf_side_False full_left_ok [OF g t])
  have r: "(if side_of cfg ind outd \<noteq> ''left''
            then bind_err (full_right P cfg g (TwoSideRandomDecomposition ld lp rd rp) r_key ind)
                   (\<lambda>(d, p). Inr (Some d, Some p))
            else Inr (None, None))
         = Inr (map_option (\<lambda>d. refresh_right (beta cfg)
                   (random_generate P (fresh_key P (the rp) r_key) (t, ind))
                   (proj_matrix P (the rp) (t, ind)) d g) rd,
                map_option (\<lambda>p. refreshed_proj P cfg p r_key (t, ind)) rp)"
    using wr by (auto simp: wf_side_True wf_side_False full_right_ok [OF g t])
  show ?thesis
    using sf by (simp add: full_layer_fn_def g k l r)
qed

lemma partial_layer_fn_factored:
  assumes sf: "should_factorize cfg [ind, outd]" and g: "shape g = [ind, outd]"
    and t: "tau cfg = Some t"
    and wl: "wf_side cfg (side_of cfg ind outd \<noteq> ''right'') [t, ind] [outd, t] ld lp"
    and wr: "wf_side cfg (side_of cfg ind outd \<noteq> ''left'') [outd, t] [t, ind] rd rp"
  shows "partial_layer_fn P cfg g (TwoSideRandomDecomposition ld lp rd rp) key =
     Inr (TwoSideRandomDecomposition
       (map_option (\<lambda>d. ema (beta cfg) d
           (mat_mul (mat_T (proj_matrix P (the lp) (outd, t))) (mat_T g))) ld)
       lp
       (map_option (\<lambda>d. ema (beta cfg) d
           (mat_mul (mat_T g) (mat_T (proj_matrix P (the rp) (t, ind))))) rd)
       rp)"
proof -
  have l: "(if side_of cfg ind outd \<noteq> ''right''
            then bind_err (partial_left P cfg g (TwoSideRandomDecomposition ld lp rd rp) outd)
                   (\<lambda>(d, p). Inr (Some d, p))
            else Inr (None, None))
         = Inr (map_option (\<lambda>d. ema (beta cfg) d
                   (mat_mul (mat_T (proj_matrix P (the lp) (outd, t))) (mat_T g))) ld, lp)"
    using wl by (auto simp: wf_side_True wf_side_False partial_left_ok [OF g t])
  have r: "(if side_of cfg ind outd \<noteq> ''left''
            then bind_err (partial_right P cfg g (TwoSideRandomDecomposition ld lp rd rp) ind)
                   (\<lambda>(d, p). Inr (Some d, p))
            else Inr (None, None))
         = Inr (map_option (\<lambda>d. ema (beta cfg) d
                   (mat_mul (mat_T g) (mat_T (proj_matrix P (the rp) (t, ind))))) rd, rp)"
    using wr by (auto simp: wf_side_True wf_side_False partial_right_ok [OF g t])
  show ?thesis
    using sf by (simp add: partial_layer_fn_def g l r)
qed

lemma init_layer_factored:
  assumes sf: "should_factorize cfg [ind, outd]" and p: "shape p = [ind, outd]"
    and t: "tau cfg = Some t" and k: "split P key = (l_key, r_key)"
  shows "init_layer P cfg p key =
     Inr (TwoSideRandomDecomposition
       (if side_of cfg ind outd \<noteq> ''right'' then Some (zeros [t, ind]) else None)
       (if side_of cfg ind outd \<noteq> ''right''
        then Some (if rng_only cfg then Key l_key else Mat (random_generate P l_key (outd, t)))
        else None)
       (if side_of cfg ind outd \<noteq> ''left'' then Some (zeros [outd, t]) else None)
       (if side_of cfg ind outd \<noteq> ''left''
        then Some (if rng_only cfg then Key r_key else Mat (random_generate P r_key (t, ind)))
        else None))"
  using sf by (simp add: init_layer_def p k t zeros_tau_def init_proj_def generate_tau_def)

lemma init_layer_naive:
  "\<not> should_factorize cfg (shape p) \<Longrightarrow>
     init_layer P cfg p key = Inr (NaiveDecomposition (zeros (shape p)))"
  by (simp add: init_layer_def)

lemma init_layer_no_tau:
  "should_factorize cfg (shape p) \<Longrightarrow> tau cfg = None \<Longrightarrow> init_layer P cfg p key = Inl TypeError"
  by (cases "side_of cfg (shape p ! 0) (shape p ! Suc 0) = ''left''")
     (auto dest!: should_factorize_dims
        simp: init_layer_def zeros_tau_def init_proj_def generate_tau_def Let_def
        split: prod.splits)

lemma wf_dcomp_two_side:
  "should_factorize cfg [ind, outd] \<Longrightarrow> tau cfg = Some t \<Longrightarrow>
     wf_dcomp cfg [ind, outd] (TwoSideRandomDecomposition ld lp rd rp) \<longleftrightarrow>
       wf_side cfg (side_of cfg ind outd \<noteq> ''right'') [t, ind] [outd, t] ld lp
       \<and> wf_side cfg (side_of cfg ind outd \<noteq> ''left'') [outd, t] [t, ind] rd rp"
  by (simp add: wf_dcomp_def)

lemma init_layer_wf:
  assumes "init_layer P cfg p key = Inr d"
  shows "wf_dcomp cfg (shape p) d"
proof (cases "should_factorize cfg (shape p)")
  case False
  then show ?thesis using assms by (auto simp: init_layer_naive wf_dcomp_naive)
next
  case True
  then obtain ind outd where s: "shape p = [ind, outd]"
    using should_factorize_dims by blast
  obtain l_key r_key where k: "split P key = (l_key, r_key)"
    by (cases "split P key")
  from True assms obtain t where t: "tau cfg = Some t"
    by (cases "tau cfg") (auto simp: init_layer_no_tau)
  have sf: "should_factorize cfg [ind, outd]" using True s by simp
  from assms have d: "d = TwoSideRandomDecomposition
       (if side_of cfg ind outd \<noteq> ''right'' then Some (zeros [t, ind]) else None)
       (if side_of cfg ind outd \<noteq> ''right''
        then Some (if rng_only cfg then Key l_key else Mat (random_generate P l_key (outd, t)))
        else None)
       (if side_of cfg ind outd \<noteq> ''left'' then Some (zeros [outd, t]) else None)
       (if side_of cfg ind outd \<noteq> ''left''
        then Some (if rng_only cfg then Key r_key else Mat (random_generate P r_key (t, ind)))
        else None)"
    unfolding init_layer_factored [OF sf s t k] by simp
  show ?thesis
    unfolding s d wf_dcomp_two_side [OF sf t]
    by (simp add: wf_side_def wf_proj_def)
qed

lemma init_layer_total:
  assumes "should_factorize cfg (shape p) \<longrightarrow> tau cfg \<noteq> None"
  shows "\<exists>d. init_layer P cfg p key = Inr d"
proof (cases "should_factorize cfg (shape p)")
  case False
  then show ?thesis by (simp add: init_layer_naive)
next
  case True
  then obtain ind outd where s: "shape p = [ind, outd]"
    using should_factorize_dims by blast
  obtain l_key r_key where k: "split P key = (l_key, r_key)"
    by (cases "split P key")
  from True assms obtain t where t: "tau cfg = Some t" by auto
  have sf: "should_factorize cfg [ind, outd]" using True s by simp
  show ?thesis
    unfolding init_layer_factored [OF sf s t k] by blast
qed

lemma query_layer_naive:
  "\<not> should_factorize cfg (shape g) \<Longrightarrow>
     query_layer P cfg g (NaiveDecomposition x) = Inr x"
  by (simp add: query_layer_def)

lemma query_layer_left:
  assumes sf: "should_factorize cfg [ind, outd]" and g: "shape g = [ind, outd]"
    and t: "tau cfg = Some t" and s: "side_of cfg ind outd = ''left''"
    and d: "shape d = [t, ind]" and p: "wf_proj cfg [outd, t] p"
  shows "query_layer P cfg g (TwoSideRandomDecomposition (Some d) (Some p) rd rp)
         = Inr (mat_T (mat_mul (proj_matrix P p (outd, t)) d))"
  using sf d shape_proj_matrix [OF p, of P]
  by (simp add: query_layer_def g s stored_proj_wf [OF t p, of P "\<lambda>t. outd" "\<lambda>t. t", simplified]
        need_tensor_def matmul_matrix transpose_t_matrix)

lemma query_layer_right:
  assumes sf: "should_factorize cfg [ind, outd]" and g: "shape g = [ind, outd]"
    and t: "tau cfg = Some t" and s: "side_of cfg ind outd = ''right''"
    and d: "shape d = [outd, t]" and p: "wf_proj cfg [t, ind] p"
  shows "query_layer P cfg g (TwoSideRandomDecomposition ld lp (Some d) (Some p))
         = Inr (mat_T (mat_mul d (proj_matrix P p (t, ind))))"
  using sf d shape_proj_matrix [OF p, of P]
  by (simp add: query_layer_def g s stored_proj_wf [OF t p, of P "\<lambda>t. t" "\<lambda>t. ind", simplified]
        need_tensor_def matmul_matrix transpose_t_matrix)

lemma query_layer_both:
  assumes sf: "should_factorize cfg [ind, outd]" and g: "shape g = [ind, outd]"
    and t: "tau cfg = Some t"
    and s: "side_of cfg ind outd \<noteq> ''left''" "side_of cfg ind outd \<noteq> ''right''"
    and ld: "shape ld = [t, ind]" and lp: "wf_proj cfg [outd, t] lp"
    and rd: "shape rd = [outd, t]" and rp: "wf_proj cfg [t, ind] rp"
  shows "query_layer P cfg g (TwoSideRandomDecomposition (Some ld) (Some lp) (Some rd) (Some rp))
         = Inr (div_scalar
                  (mat_T (add_t (mat_mul rd (proj_matrix P rp (t, ind)))
                                (mat_mul (proj_matrix P lp (outd, t)) ld))) 2)"
  using sf ld rd shape_proj_matrix [OF lp, of P] shape_proj_matrix [OF rp, of P] s
  by (simp add: query_layer_def g
        stored_proj_wf [OF t lp, of P "\<lambda>t. outd" "\<lambda>t. t", simplified]
        stored_proj_wf [OF t rp, of P "\<lambda>t. t" "\<lambda>t. ind", simplified]
        need_tensor_def matmul_matrix transpose_t_matrix tadd_def)

lemma wf_proj_refreshed [simp]: "wf_proj cfg [a, b] (refreshed_proj P cfg p key (a, b))"
  by (simp add: wf_proj_def refreshed_proj_def)

lemma full_layer_fn_wf:
  assumes wf: "wf_dcomp cfg (shape g) d"
  shows "\<exists>d'. full_layer_fn P cfg g d key = Inr d' \<and> wf_dcomp cfg (shape g) d'
              \<and> variant_of d' = variant_of d"
proof (cases "should_factorize cfg (shape g)")
  case False
  with wf obtain x where "d = NaiveDecomposition x" "shape x = shape g"
    by (auto simp: wf_dcomp_naive)
  with False show ?thesis
    by (simp add: full_layer_fn_def naive_fn_ok wf_dcomp_naive)
next
  case True
  then obtain ind outd where s: "shape g = [ind, outd]"
    using should_factorize_dims by blast
  have sf: "should_factorize cfg [ind, outd]" using True s by simp
  obtain l_key r_key where k: "split P key = (l_key, r_key)"
    by (cases "split P key")
  from wf obtain t ld lp rd rp where t: "tau cfg = Some t"
    and d: "d = TwoSideRandomDecomposition ld lp rd rp"
    and wl: "wf_side cfg (side_of cfg ind outd \<noteq> ''right'') [t, ind] [outd, t] ld lp"
    and wr: "wf_side cfg (side_of cfg ind outd \<noteq> ''left'') [outd, t] [t, ind] rd rp"
    unfolding s wf_dcomp_factored [OF sf] by blast
  show ?thesis
    unfolding d full_layer_fn_factored [OF sf s t wl wr k] s
    using wl wr
    by (auto simp: wf_dcomp_two_side [OF sf t] wf_side_def refresh_left_def refresh_right_def
          split: option.splits if_splits)
qed

lemma partial_layer_fn_wf:
  assumes wf: "wf_dcomp cfg (shape g) d"
  shows "\<exists>d'. partial_layer_fn P cfg g d key = Inr d' \<and> wf_dcomp cfg (shape g) d'
              \<and> variant_of d' = variant_of d \<and> projections d' = projections d"
proof (cases "should_factorize cfg (shape g)")
  case False
  with wf obtain x where "d = NaiveDecomposition x" "shape x = shape g"
    by (auto simp: wf_dcomp_naive)
  with False show ?thesis
    by (simp add: partial_layer_fn_def naive_fn_ok wf_dcomp_naive)
next
  case True
  then obtain ind outd where s: "shape g = [ind, outd]"
    using should_factorize_dims by blast
  have sf: "should_factorize cfg [ind, outd]" using True s by simp
  from wf obtain t ld lp rd rp where t: "tau cfg = Some t"
    and d: "d = TwoSideRandomDecomposition ld lp rd rp"
    and wl: "wf_side cfg (side_of cfg ind outd \<noteq> ''right'') [t, ind] [outd, t] ld lp"
    and wr: "wf_side cfg (side_of cfg ind outd \<noteq> ''left'') [outd, t] [t, ind] rd rp"
    unfolding s wf_dcomp_factored [OF sf] by blast
  show ?thesis
    unfolding d partial_layer_fn_factored [OF sf s t wl wr] s
    using wl wr
    by (auto simp: wf_dcomp_two_side [OF sf t] wf_side_def
          split: option.splits if_splits)
qed

lemma query_layer_reconstruct:
  assumes wf: "wf_dcomp cfg (shape g) d"
  shows "query_layer P cfg g d = Inr (reconstruct P cfg (shape g) d)"
    and "shape (reconstruct P cfg (shape g) d) = shape g"
proof -
  have "query_layer P cfg g d = Inr (reconstruct P cfg (shape g) d)
        \<and> shape (reconstruct P cfg (shape g) d) = shape g"
  proof (cases "should_factorize cfg (shape g)")
    case False
    with wf obtain x where "d = NaiveDecomposition x" "shape x = shape g"
      by (auto simp: wf_dcomp_naive)
    with False show ?thesis
      by (simp add: query_layer_naive)
  next
    case True
    then obtain ind outd where s: "shape g = [ind, outd]"
      using should_factorize_dims by blast
    have sf: "should_factorize cfg [ind, outd]" using True s by simp
    from wf obtain t ld lp rd rp where t: "tau cfg = Some t"
      and d: "d = TwoSideRandomDecomposition ld lp rd rp"
      and wl: "wf_side cfg (side_of cfg ind outd \<noteq> ''right'') [t, ind] [outd, t] ld lp"
      and wr: "wf_side cfg (side_of cfg ind outd \<noteq> ''left'') [outd, t] [t, ind] rd rp"
      unfolding s wf_dcomp_factored [OF sf] by blast
    have r: "rank_of cfg = t" using t by (simp add: rank_of_def)
    consider (left) "side_of cfg ind outd = ''left''"
      | (right) "side_of cfg ind outd = ''right''"
      | (both) "side_of cfg ind outd \<noteq> ''left''" "side_of cfg ind outd \<noteq> ''right''"
      by blast
    then show ?thesis
    proof cases
      case left
      with wl wr obtain x p where *: "ld = Some x" "lp = Some p" "shape x = [t, ind]"
        "wf_proj cfg [outd, t] p" "rd = None" "rp = None"
        by (auto simp: wf_side_True wf_side_False)
      then show ?thesis
        using query_layer_left [OF sf s t left, of x p P rd rp] shape_proj_matrix [of cfg outd t p P]
        by (simp add: d s r)
    next
      case right
      with wl wr obtain x p where *: "rd = Some x" "rp = Some p" "shape x = [outd, t]"
        "wf_proj cfg [t, ind] p" "ld = None" "lp = None"
        by (auto simp: wf_side_True wf_side_False)
      then show ?thesis
        using query_layer_right [OF sf s t right, of x p P ld lp] shape_proj_matrix [of cfg t ind p P]
        by (simp add: d s r)
    next
      case both
      with wl wr obtain x p y q where *: "ld = Some x" "lp = Some p" "shape x = [t, ind]"
        "wf_proj cfg [outd, t] p" "rd = Some y" "rp = Some q" "shape y = [outd, t]"
        "wf_proj cfg [t, ind] q"
        by (auto simp: wf_side_True)
      show ?thesis
        using query_layer_both [OF sf s t both *(3) *(4) *(7) *(8), of P] *
          shape_proj_matrix [of cfg outd t p P] shape_proj_matrix [of cfg t ind q P]
        by (simp add: d s r)
    qed
  qed
  then show "query_layer P cfg g d = Inr (reconstruct P cfg (shape g) d)"
    and "shape (reconstruct P cfg (shape g) d) = shape g"
    by simp_all
qed

lemma query_layer_wf:
  assumes wf: "wf_dcomp cfg (shape g) d"
  shows "\<exists>m. query_layer P cfg g d = Inr m \<and> shape m = shape g"
  using query_layer_reconstruct [OF wf, of P] by blast

lemma wf_state_nth:
  "wf_state cfg (map shape grads) st \<longleftrightarrow>
     length (decomposition st) = length grads
     \<and> (\<forall>i<length grads. wf_dcomp cfg (shape (grads ! i)) (decomposition st ! i))"
  by (auto simp: wf_state_def list_all2_conv_all_nth)

lemma init_fn_Inr_iff:
  "init_fn P cfg params = Inr st \<longleftrightarrow>
     (\<exists>ds. tree_map2 (init_layer P cfg) params
              (random_split_like_tree P (PRNGKey P (seed cfg)) params) = Inr ds
           \<and> st = \<lparr>count = 0, decomposition = ds, rng = PRNGKey P (seed cfg)\<rparr>)"
  by (auto simp: init_fn_def Let_def bind_err_eq_Inr)

lemma init_fn_wf:
  assumes "init_fn P cfg params = Inr st"
  shows "wf_state cfg (map shape params) st" and "count st = 0"
  using assms
  by (auto simp: init_fn_Inr_iff tree_map2_Inr_iff wf_state_nth intro!: init_layer_wf)

lemma update_state_wf:
  assumes wf: "wf_state cfg (map shape grads) st"
  shows "\<exists>st'. update_state P cfg grads st = Inr st' \<and> wf_state cfg (map shape grads) st'
           \<and> count st' = count st + 1 \<and> rng st' = next_rng_key P (rng st)
           \<and> map variant_of (decomposition st') = map variant_of (decomposition st)
           \<and> (\<not> refresh_step cfg st \<longrightarrow>
                 map projections (decomposition st') = map projections (decomposition st))"
proof -
  let ?keys = "random_split_like_tree P (rng st) grads"
  from wf have len: "length (decomposition st) = length grads"
    and each: "\<And>i. i < length grads \<Longrightarrow> wf_dcomp cfg (shape (grads ! i)) (decomposition st ! i)"
    by (simp_all add: wf_state_nth)
  show ?thesis
  proof (cases "refresh_step cfg st")
    case True
    have "\<exists>ds. tree_map3 (full_layer_fn P cfg) grads (decomposition st) ?keys = Inr ds"
      using len each full_layer_fn_wf [of cfg _ _ P]
      by (intro tree_map3_total) (simp_all, blast)
    then obtain ds where ds: "tree_map3 (full_layer_fn P cfg) grads (decomposition st) ?keys = Inr ds"
      by blast
    then have l: "length ds = length grads"
      and e: "\<And>i. i < length grads \<Longrightarrow>
                full_layer_fn P cfg (grads ! i) (decomposition st ! i) (?keys ! i) = Inr (ds ! i)"
      by (simp_all add: tree_map3_Inr_iff)
    have p: "wf_dcomp cfg (shape (grads ! i)) (ds ! i) \<and> variant_of (ds ! i) = variant_of (decomposition st ! i)"
      if "i < length grads" for i
      using full_layer_fn_wf [OF each [OF that], of P "?keys ! i"] e [OF that] by auto
    have "map variant_of ds = map variant_of (decomposition st)"
      using l len p by (auto simp: list_eq_iff_nth_eq)
    then show ?thesis
      using True ds l p by (simp add: update_state_def Let_def wf_state_nth)
  next
    case False
    have "\<exists>ds. tree_map3 (partial_layer_fn P cfg) grads (decomposition st) ?keys = Inr ds"
      using len each partial_layer_fn_wf [of cfg _ _ P]
      by (intro tree_map3_total) (simp_all, blast)
    then obtain ds where ds: "tree_map3 (partial_layer_fn P cfg) grads (decomposition st) ?keys = Inr ds"
      by blast
    then have l: "length ds = length grads"
      and e: "\<And>i. i < length grads \<Longrightarrow>
                partial_layer_fn P cfg (grads ! i) (decomposition st ! i) (?keys ! i) = Inr (ds ! i)"
      by (simp_all add: tree_map3_Inr_iff)
    have p: "wf_dcomp cfg (shape (grads ! i)) (ds ! i) \<and> variant_of (ds ! i) = variant_of (decomposition st ! i)
             \<and> projections (ds ! i) = projections (decomposition st ! i)"
      if "i < length grads" for i
      using partial_layer_fn_wf [OF each [OF that], of P "?keys ! i"] e [OF that] by auto
    have "map variant_of ds = map variant_of (decomposition st)"
      and "map projections ds = map projections (decomposition st)"
      using l len p by (auto simp: list_eq_iff_nth_eq)
    then show ?thesis
      using False ds l p by (simp add: update_state_def Let_def wf_state_nth)
  qed
qed

lemma query_wf:
  assumes wf: "wf_state cfg (map shape grads) st"
  shows "\<exists>ms. query P cfg grads st = Inr ms \<and> map shape ms = map shape grads"
proof -
  from wf have len: "length (decomposition st) = length grads"
    and each: "\<And>i. i < length grads \<Longrightarrow> wf_dcomp cfg (shape (grads ! i)) (decomposition st ! i)"
    by (simp_all add: wf_state_nth)
  have "\<exists>ms. tree_map2 (query_layer P cfg) grads (decomposition st) = Inr ms"
    using len each query_layer_wf [of cfg _ _ P]
    by (intro tree_map2_total) (simp_all, blast)
  then obtain ms where ms: "query P cfg grads st = Inr ms"
    by (auto simp: query_def)
  then have l: "length ms = length grads"
    and e: "\<And>i. i < length grads \<Longrightarrow>
              query_layer P cfg (grads ! i) (decomposition st ! i) = Inr (ms ! i)"
    by (simp_all add: query_def tree_map2_Inr_iff)
  have "shape (ms ! i) = shape (grads ! i)" if "i < length grads" for i
    using query_layer_wf [OF each [OF that], of P] e [OF that] by auto
  then have "map shape ms = map shape grads"
    using l by (auto simp: list_eq_iff_nth_eq)
  with ms show ?thesis by blast
qed

lemma sint_of_nat_32: "n < 2 ^ 31 \<Longrightarrow> sint (of_nat n :: 32 word) = int n"
  using int_word_sint [of "int n", where 'a = 32] by simp

lemma blend_ema: "shape m = shape g \<Longrightarrow> blend cfg m g = Inr (ema (beta cfg) m g)"
  by (simp add: blend_def tadd_def add_t_def mul_scalar_def ema_def zip_map_map case_prod_unfold mult.commute)

lemma blend_Inr_iff: "blend cfg m g = Inr u \<longleftrightarrow> shape m = shape g \<and> u = ema (beta cfg) m g"
  by (cases "shape m = shape g") (auto simp: blend_ema, simp add: blend_def tadd_def)

lemma tree_map2_blend_iff:
  "tree_map2 (blend cfg) ms grads = Inr us \<longleftrightarrow>
     map shape ms = map shape grads \<and> us = map2 (ema (beta cfg)) ms grads"
proof -
  have "tree_map2 (blend cfg) ms grads = Inr us \<longleftrightarrow>
     length grads = length ms \<and> length us = length ms
     \<and> (\<forall>i<length ms. shape (ms ! i) = shape (grads ! i) \<and> us ! i = ema (beta cfg) (ms ! i) (grads ! i))"
    by (simp add: tree_map2_Inr_iff blend_Inr_iff)
  also have "\<dots> \<longleftrightarrow> map shape ms = map shape grads \<and> us = map2 (ema (beta cfg)) ms grads"
    unfolding list_eq_iff_nth_eq by auto
  finally show ?thesis .
qed

lemma update_fn_Inr_iff:
  "update_fn P cfg grads st = Inr (us, st') \<longleftrightarrow>
     (\<exists>ms. query P cfg grads st = Inr ms \<and> map shape ms = map shape grads
           \<and> us = map2 (ema (beta cfg)) ms grads
           \<and> update_state P cfg grads st = Inr st')"
  by (auto simp: update_fn_def bind_err_eq_Inr tree_map2_blend_iff)

lemma update_fn_wf:
  assumes wf: "wf_state cfg (map shape grads) st"
  shows "\<exists>us st'. update_fn P cfg grads st = Inr (us, st')
           \<and> update_state P cfg grads st = Inr st'
           \<and> wf_state cfg (map shape grads) st'"
proof -
  from query_wf [OF wf, of P] obtain ms where
    ms: "query P cfg grads st = Inr ms" "map shape ms = map shape grads"
    by blast
  from update_state_wf [OF wf, of P] obtain st' where
    st': "update_state P cfg grads st = Inr st'" "wf_state cfg (map shape grads) st'"
    by blast
  have "update_fn P cfg grads st = Inr (map2 (ema (beta cfg)) ms grads, st')"
    using ms st' by (simp add: update_fn_Inr_iff)
  with st' show ?thesis by blast
qed

lemma run_updates_wf:
  assumes "wf_state cfg shapes st" and "list_all (\<lambda>g. map shape g = shapes) gss"
  shows "\<exists>st'. run_updates P cfg st gss = Inr st' \<and> wf_state cfg shapes st'
           \<and> count st' = count st + of_nat (length gss)
           \<and> map variant_of (decomposition st') = map variant_of (decomposition st)"
  using assms
proof (induction gss arbitrary: st)
  case Nil
  then show ?case by simp
next
  case (Cons g gss)
  from Cons.prems have g: "map shape g = shapes" and rest: "list_all (\<lambda>g. map shape g = shapes) gss"
    by simp_all
  from Cons.prems(1) g have wf: "wf_state cfg (map shape g) st" by simp
  from update_fn_wf [OF wf, of P] obtain us st1 where
    u: "update_fn P cfg g st = Inr (us, st1)" "update_state P cfg g st = Inr st1"
    by blast
  from update_state_wf [OF wf, of P] u(2) have
    st1: "wf_state cfg shapes st1" "count st1 = count st + 1"
      "map variant_of (decomposition st1) = map variant_of (decomposition st)"
    using g by auto
  from Cons.IH [OF st1(1) rest] obtain st' where
    "run_updates P cfg st1 gss = Inr st'" "wf_state cfg shapes st'"
    "count st' = count st1 + of_nat (length gss)"
    "map variant_of (decomposition st') = map variant_of (decomposition st1)"
    by blast
  with u st1 show ?case by simp
qed

lemma query_reconstruct:
  assumes wf: "wf_state cfg (map shape grads) st"
  shows "query P cfg grads st
         = Inr (map2 (reconstruct P cfg) (map shape grads) (decomposition st))"
    and "map shape (map2 (reconstruct P cfg) (map shape grads) (decomposition st))
         = map shape grads"
proof -
  from wf have len: "length (decomposition st) = length grads"
    and each: "\<And>i. i < length grads \<Longrightarrow> wf_dcomp cfg (shape (grads ! i)) (decomposition st ! i)"
    by (simp_all add: wf_state_nth)
  show "query P cfg grads st
         = Inr (map2 (reconstruct P cfg) (map shape grads) (decomposition st))"
    unfolding query_def tree_map2_Inr_iff
    using len each query_layer_reconstruct(1) [of cfg _ _ P] by simp
  show "map shape (map2 (reconstruct P cfg) (map shape grads) (decomposition st))
         = map shape grads"
    unfolding list_eq_iff_nth_eq
    using len each query_layer_reconstruct(2) [of cfg _ _ P] by simp
qed

lemma not_factored_never_factorizes: "\<not> factored cfg \<Longrightarrow> \<not> should_factorize cfg shp"
  by (simp add: should_factorize_def)

lemma init_fn_naive:
  assumes "\<not> factored cfg"
  shows "init_fn P cfg params =
           Inr \<lparr>count = 0,
                decomposition = map NaiveDecomposition (map (\<lambda>p. zeros (shape p)) params),
                rng = PRNGKey P (seed cfg)\<rparr>"
proof -
  have "tree_map2 (init_layer P cfg) params (random_split_like_tree P (PRNGKey P (seed cfg)) params)
        = Inr (map NaiveDecomposition (map (\<lambda>p. zeros (shape p)) params))"
    unfolding tree_map2_Inr_iff
    using assms by (simp add: init_layer_naive not_factored_never_factorizes)
  then show ?thesis
    by (simp add: init_fn_def Let_def)
qed

lemma update_state_naive:
  assumes nf: "\<not> factored cfg" and d: "decomposition st = map NaiveDecomposition ms"
    and sh: "map shape ms = map shape grads"
  shows "update_state P cfg grads st =
           Inr \<lparr>count = count st + 1,
                decomposition = map NaiveDecomposition (map2 (ema (beta cfg)) ms grads),
                rng = next_rng_key P (rng st)\<rparr>"
proof -
  from sh have len: "length ms = length grads"
    by (rule map_eq_imp_length_eq)
  have each: "shape (ms ! i) = shape (grads ! i)" if "i < length grads" for i
    using sh that len by (metis nth_map)
  let ?keys = "random_split_like_tree P (rng st) grads"
  let ?res = "map NaiveDecomposition (map2 (ema (beta cfg)) ms grads)"
  have f: "tree_map3 (full_layer_fn P cfg) grads (decomposition st) ?keys = Inr ?res"
    unfolding tree_map3_Inr_iff d
    using len each nf
    by (simp add: full_layer_fn_def naive_fn_ok not_factored_never_factorizes)
  have p: "tree_map3 (partial_layer_fn P cfg) grads (decomposition st) ?keys = Inr ?res"
    unfolding tree_map3_Inr_iff d
    using len each nf
    by (simp add: partial_layer_fn_def naive_fn_ok not_factored_never_factorizes)
  show ?thesis
    by (simp add: update_state_def Let_def f p)
qed

lemma query_naive:
  assumes nf: "\<not> factored cfg" and d: "decomposition st = map NaiveDecomposition ms"
    and sh: "map shape ms = map shape grads"
  shows "query P cfg grads st = Inr ms"
proof -
  from sh have len: "length ms = length grads"
    by (rule map_eq_imp_length_eq)
  show ?thesis
    unfolding query_def tree_map2_Inr_iff d
    using len nf by (simp add: query_layer_naive not_factored_never_factorizes)
qed

lemma shape_map2_ema: "map shape ms = map shape grads \<Longrightarrow> map shape (map2 (ema b) ms grads) = map shape grads"
  by (induction ms arbitrary: grads) (auto simp: zip_Cons1 split: list.splits)

lemma update_fn_naive:
  assumes nf: "\<not> factored cfg" and d: "decomposition st = map NaiveDecomposition ms"
    and sh: "map shape ms = map shape grads"
  shows "update_fn P cfg grads st =
           Inr (map2 (ema (beta cfg)) ms grads,
                \<lparr>count = count st + 1,
                 decomposition = map NaiveDecomposition (map2 (ema (beta cfg)) ms grads),
                 rng = next_rng_key P (rng st)\<rparr>)"
  unfolding update_fn_Inr_iff
  using query_naive [OF assms, of P] update_state_naive [OF assms, of P] sh by simp

lemma run_updates_naive:
  assumes "\<not> factored cfg" and "decomposition st = map NaiveDecomposition ms"
    and "map shape ms = shapes" and "list_all (\<lambda>grads. map shape grads = shapes) gss"
  shows "\<exists>st'. run_updates P cfg st gss = Inr st'
           \<and> decomposition st' = map NaiveDecomposition (ema_run (beta cfg) ms gss)
           \<and> map shape (ema_run (beta cfg) ms gss) = shapes"
  using assms
proof (induction gss arbitrary: st ms)
  case Nil
  then show ?case by simp
next
  case (Cons g gss)
  from Cons.prems have sh: "map shape ms = map shape g"
    and rest: "list_all (\<lambda>grads. map shape grads = shapes) gss" and g: "map shape g = shapes"
    by simp_all
  let ?st1 = "\<lparr>count = count st + 1,
               decomposition = map NaiveDecomposition (map2 (ema (beta cfg)) ms g),
               rng = next_rng_key P (rng st)\<rparr>"
  have u: "update_fn P cfg g st = Inr (map2 (ema (beta cfg)) ms g, ?st1)"
    by (rule update_fn_naive [OF Cons.prems(1) Cons.prems(2) sh])
  have "\<exists>st'. run_updates P cfg ?st1 gss = Inr st'
           \<and> decomposition st' = map NaiveDecomposition (ema_run (beta cfg) (map2 (ema (beta cfg)) ms g) gss)
           \<and> map shape (ema_run (beta cfg) (map2 (ema (beta cfg)) ms g) gss) = shapes"
    using shape_map2_ema [OF sh] g
    by (intro Cons.IH [OF Cons.prems(1) _ _ rest]) simp_all
  then show ?case
    using u by simp
qed

lemma ema_run_snoc: "ema_run b ms (gss @ [g]) = map2 (ema b) (ema_run b ms gss) g"
  by (induction gss arbitrary: ms) simp_all

lemma init_fn_total:
  assumes "tau cfg \<noteq> None"
  shows "\<exists>st. init_fn P cfg params = Inr st"
proof -
  have "\<exists>ds. tree_map2 (init_layer P cfg) params
               (random_split_like_tree P (PRNGKey P (seed cfg)) params) = Inr ds"
    using assms init_layer_total [of cfg _ P]
    by (intro tree_map2_total) simp_all
  then show ?thesis
    by (auto simp: init_fn_def Let_def)
qed

lemma init_layer_invalid_side:
  assumes s: "side cfg \<noteq> ''left''" "side cfg \<noteq> ''right''" "side cfg \<noteq> ''auto''"
    and i: "init_layer P cfg p key = Inr d"
  shows "variant_of d = (if should_factorize cfg (shape p) then Factored True True True True else Naive)"
proof (cases "should_factorize cfg (shape p)")
  case False
  then show ?thesis using i by (auto simp: init_layer_naive)
next
  case True
  then obtain ind outd where sh: "shape p = [ind, outd]"
    using should_factorize_dims by blast
  obtain l_key r_key where k: "split P key = (l_key, r_key)"
    by (cases "split P key")
  from True i obtain t where t: "tau cfg = Some t"
    by (cases "tau cfg") (auto simp: init_layer_no_tau)
  have sf: "should_factorize cfg [ind, outd]" using True sh by simp
  have so: "side_of cfg ind outd = side cfg"
    using s by (simp add: side_of_def)
  from i show ?thesis
    unfolding init_layer_factored [OF sf sh t k] so
    using s True by auto
qed

lemma chain_init_length: "chain_init tx params = Inr st \<Longrightarrow> length st = length tx"
  by (auto simp: chain_init_def sequence_err_Inr_iff dest: map_eq_imp_length_eq)

lemma chain_init_total:
  assumes "\<forall>t \<in> set tx. \<exists>s. t_init t params = Inr s"
  shows "\<exists>st. chain_init tx params = Inr st \<and> length st = length tx"
proof -
  have "map (\<lambda>t. t_init t params) tx = map Inr (map (\<lambda>t. projr (t_init t params)) tx)"
    using assms by auto
  then have "chain_init tx params = Inr (map (\<lambda>t. projr (t_init t params)) tx)"
    by (simp add: chain_init_def sequence_err_Inr_iff)
  then show ?thesis by simp
qed

lemma should_factorize_ratio:
  assumes pos: "\<forall>d \<in> set shp. 0 < d"
  shows "should_factorize cfg shp \<longleftrightarrow>
        factored cfg \<and> length shp = 2
        \<and> real (Max (set shp)) / real (Min (set shp)) \<le> 16
        \<and> min_dim_size_to_factor cfg \<le> int (Min (set shp))"
proof (cases "length shp = 2")
  case False
  then show ?thesis by (simp add: should_factorize_def)
next
  case True
  then obtain a b where shp: "shp = [a, b]"
    by (cases shp; cases "tl shp"; auto)
  with pos have "0 < a" "0 < b" by simp_all
  then have m: "0 < real (min a b)" by simp
  have "real (max a b) / real (min a b) \<le> 16 \<longleftrightarrow> real (max a b) \<le> 16 * real (min a b)"
    using m by (simp add: pos_divide_le_eq)
  also have "\<dots> \<longleftrightarrow> max a b \<le> min a b * 16"
    by (metis mult.commute of_nat_le_iff of_nat_mult of_nat_numeral)
  finally have "real (max a b) / real (min a b) \<le> 16 \<longleftrightarrow> \<not> max a b > min a b * 16"
    by auto
  then show ?thesis
    using shp by (auto simp add: should_factorize_def)
qed

text \<open>
  The first update draws its keys from the same \<open>rng\<close> as \<open>init_fn\<close> did, so with
  materialized projections the matrices it generates are the initial ones.
\<close>

lemma first_update_regenerates_initial_projections:
  assumes init: "init_fn P cfg params = Inr st0" and m: "\<not> rng_only cfg"
    and sh: "map shape grads = map shape params"
    and u: "update_state P cfg grads st0 = Inr st1"
  shows "map projections (decomposition st1) = map projections (decomposition st0)"
proof -
  from sh have len: "length grads = length params"
    by (rule map_eq_imp_length_eq)
  have shp: "shape (grads ! i) = shape (params ! i)" if "i < length params" for i
    using sh that len by (metis nth_map)
  let ?r = "PRNGKey P (seed cfg)"
  from init have st0: "count st0 = 0" "rng st0 = ?r"
    and l0: "length (decomposition st0) = length params"
    and i0: "\<And>i. i < length params \<Longrightarrow>
       init_layer P cfg (params ! i) (random_split_like_tree P ?r params ! i)
         = Inr (decomposition st0 ! i)"
    by (auto simp: init_fn_Inr_iff tree_map2_Inr_iff)
  have r: "refresh_step cfg st0"
    using st0(1) by (simp add: refresh_step_def jnp_mod_def)
  have keys: "random_split_like_tree P ?r grads = random_split_like_tree P ?r params"
    using len by (simp add: random_split_like_tree_def)
  from u r st0(2) keys have
    "tree_map3 (full_layer_fn P cfg) grads (decomposition st0)
       (random_split_like_tree P ?r params) = Inr (decomposition st1)"
    by (auto simp: update_state_def Let_def bind_err_eq_Inr)
  then have l1: "length (decomposition st1) = length params"
    and i1: "\<And>i. i < length params \<Longrightarrow>
       full_layer_fn P cfg (grads ! i) (decomposition st0 ! i)
         (random_split_like_tree P ?r params ! i) = Inr (decomposition st1 ! i)"
    using len by (simp_all add: tree_map3_Inr_iff)
  have "projections (decomposition st1 ! i) = projections (decomposition st0 ! i)"
    if i: "i < length params" for i
  proof (cases "should_factorize cfg (shape (params ! i))")
    case False
    with i0 [OF i] have "decomposition st0 ! i = NaiveDecomposition (zeros (shape (params ! i)))"
      by (simp add: init_layer_naive)
    then obtain x where d0: "decomposition st0 ! i = NaiveDecomposition x"
      "shape x = shape (params ! i)"
      by simp
    with False i1 [OF i] shp [OF i]
    have "decomposition st1 ! i = NaiveDecomposition (ema (beta cfg) x (grads ! i))"
      by (simp add: full_layer_fn_def naive_fn_ok)
    with d0 show ?thesis by simp
  next
    case True
    then obtain ind outd where s: "shape (params ! i) = [ind, outd]"
      using should_factorize_dims by blast
    have sf: "should_factorize cfg [ind, outd]" using True s by simp
    have sg: "shape (grads ! i) = [ind, outd]" using shp [OF i] s by simp
    let ?key = "random_split_like_tree P ?r params ! i"
    obtain l_key r_key where k: "split P ?key = (l_key, r_key)"
      by (cases "split P ?key")
    from True i0 [OF i] obtain t where t: "tau cfg = Some t"
      by (cases "tau cfg") (auto simp: init_layer_no_tau)
    note d0 = i0 [OF i, unfolded init_layer_factored [OF sf s t k], simplified, symmetric]
    have wf: "wf_dcomp cfg [ind, outd] (decomposition st0 ! i)"
      using init_layer_wf [OF i0 [OF i]] s by simp
    then obtain ld lp rd rp where
      d: "decomposition st0 ! i = TwoSideRandomDecomposition ld lp rd rp"
      and wl: "wf_side cfg (side_of cfg ind outd \<noteq> ''right'') [t, ind] [outd, t] ld lp"
      and wr: "wf_side cfg (side_of cfg ind outd \<noteq> ''left'') [outd, t] [t, ind] rd rp"
      unfolding wf_dcomp_factored [OF sf] using t by auto
    note d1 = i1 [OF i, unfolded d full_layer_fn_factored [OF sf sg t wl wr k], simplified, symmetric]
    from d d0 m have "lp = (if side_of cfg ind outd \<noteq> ''right''
                            then Some (Mat (random_generate P l_key (outd, t))) else None)"
      and "rp = (if side_of cfg ind outd \<noteq> ''left''
                 then Some (Mat (random_generate P r_key (t, ind))) else None)"
      by auto
    then show ?thesis
      using m by (simp add: d d1 refreshed_proj_def fresh_key_def)
  qed
  then show ?thesis
    using l0 l1 by (auto simp: list_eq_iff_nth_eq)
qed

text \<open>
  With \<open>kappa = 0\<close> every step is a refresh: the second update, at \<open>count = 1\<close>,
  replaces the projection \<open>[2, 5 / 2]\<close> of \<open>small_state1\<close>.
\<close>

lemma kappa_zero_always_refreshes: "kappa cfg = 0 \<Longrightarrow> refresh_step cfg st"
  by (simp add: refresh_step_def jnp_mod_def)

lemma kappa_zero_second_update:
  "update_state test_prims (small_cfg\<lparr>kappa := 0\<rparr>) small_grads small_state1 =
     Inr \<lparr>count = 2,
          decomposition =
            [TwoSideRandomDecomposition None None
               (Some (Tensor [3, 1] [3907 / 100, 43027 / 800, 27399 / 400]))
               (Some (Mat (Tensor [1, 2] [7, 15 / 2]))),
             NaiveDecomposition (Tensor [3] [19 / 100, 19 / 100, 19 / 100])],
          rng = 4\<rparr>"
  by code_simp

section \<open>Claims\<close>

text \<open>
  C4. With positive dimensions, \<open>should_factorize\<close> holds exactly when factorization is
  enabled, the tensor has two dimensions, the ratio of its larger to its smaller
  dimension is at most 16 and the smaller dimension is at least
  \<open>min_dim_size_to_factor\<close>. With the default 128, a (128,128) tensor is factorized and
  a (127,127) and a (2048,16) tensor are not.
\<close>

theorem should_factorize_iff:
  "((\<forall>d \<in> set shp. 0 < d) \<longrightarrow>
     (should_factorize cfg shp \<longleftrightarrow>
        factored cfg \<and> length shp = 2
        \<and> real (Max (set shp)) / real (Min (set shp)) \<le> 16
        \<and> min_dim_size_to_factor cfg \<le> int (Min (set shp))))
   \<and> (factored cfg \<and> min_dim_size_to_factor cfg = 128 \<longrightarrow>
         should_factorize cfg [128, 128] \<and> \<not> should_factorize cfg [127, 127]
         \<and> \<not> should_factorize cfg [2048, 16])"
  using should_factorize_ratio [of shp cfg] by (simp add: should_factorize_def)

theorem should_factorize_iff_witness:
  "list_all (\<lambda>d. 0 < d) [128, 128 :: nat] \<and> should_factorize default_cfg [128, 128]
   \<and> real (Max (set [128, 128 :: nat])) / real (Min (set [128, 128 :: nat])) \<le> 16
   \<and> factored default_cfg \<and> min_dim_size_to_factor default_cfg = 128
   \<and> \<not> should_factorize default_cfg [127, 127] \<and> \<not> should_factorize default_cfg [2048, 16]"
  using should_factorize_iff [of "[128, 128]" default_cfg] by (simp add: default_cfg_def)

text \<open>
  C9. On a dataset of length 10 with \<open>batch_size = 3\<close> and no shuffling,
  \<open>drop_last = True\<close> yields the three batches of rows 0-2, 3-5, 6-8. With
  \<open>drop_last = False\<close> the code yields four batches of sizes 3, 3, 2, 2:
  \<open>np.array_split\<close> balances the sections, so the batches before the last are not all
  of size \<open>batch_size\<close>.
\<close>

theorem data_loader_len10_batch3:
  "data_loader permutation rng [0..<10] 3 False True None
     = Inr [[0, 1, 2], [3, 4, 5], [6, 7, 8]]
   \<and> data_loader permutation rng [0..<10] 3 False False None
     = Inr [[0, 1, 2], [3, 4, 5], [6, 7], [8, 9]]"
  by code_simp

text \<open>
  C6. From the state \<open>init_fn\<close> returns, every sequence of updates with gradients of
  the parameters' shapes succeeds, and in the state it reaches every decomposition has
  the variant it had at initialization: naive stays naive, and a factored decomposition
  keeps exactly the populated fields.
\<close>

theorem decomposition_variant_fixed:
  assumes "init_fn P cfg params = Inr st0"
    and "list_all (\<lambda>grads. map shape grads = map shape params) gss"
  shows "\<exists>st. run_updates P cfg st0 gss = Inr st
           \<and> map variant_of (decomposition st) = map variant_of (decomposition st0)"
  using run_updates_wf [OF init_fn_wf(1) [OF assms(1)] assms(2), of P] by blast

theorem decomposition_variant_fixed_witness:
  "init_fn test_prims small_cfg small_params = Inr small_state0
   \<and> list_all (\<lambda>grads. map shape grads = map shape small_params) [small_grads, small_grads]
   \<and> (\<exists>st. run_updates test_prims small_cfg small_state0 [small_grads, small_grads] = Inr st
         \<and> map variant_of (decomposition st) = map variant_of (decomposition small_state0))
   \<and> map variant_of (decomposition small_state0) = [Factored False False True True, Naive]"
proof -
  have h1: "init_fn test_prims small_cfg small_params = Inr small_state0"
    by code_simp
  have h2: "list_all (\<lambda>grads. map shape grads = map shape small_params) [small_grads, small_grads]"
    by code_simp
  have h3: "map variant_of (decomposition small_state0) = [Factored False False True True, Naive]"
    by code_simp
  from decomposition_variant_fixed [OF h1 h2] h1 h2 h3 show ?thesis by blast
qed

text \<open>
  C2. In the state reached from \<open>init_fn\<close> by any sequence of updates, \<open>count\<close> is the
  number of updates made (as an \<open>int32\<close>). When \<open>jnp.mod(count, kappa)\<close> is not 0,
  that is when \<open>kappa\<close> is not 0 and \<open>count mod kappa\<close> is not 0, \<open>update_state\<close>
  succeeds and leaves every stored projection (matrix or key) and the variant of every
  decomposition as they were: only the data buffers change.
\<close>

theorem partial_step_keeps_projections:
  assumes "init_fn P cfg params = Inr st0"
    and "list_all (\<lambda>grads. map shape grads = map shape params) gss"
    and "map shape grads = map shape params"
  shows "\<exists>st. run_updates P cfg st0 gss = Inr st
           \<and> count st = of_nat (length gss)
           \<and> (length gss < 2 ^ 31 \<longrightarrow> sint (count st) = int (length gss))
           \<and> (jnp_mod (sint (count st)) (sint (kappa cfg)) \<noteq> 0 \<longleftrightarrow>
                sint (kappa cfg) \<noteq> 0 \<and> sint (count st) mod sint (kappa cfg) \<noteq> 0)
           \<and> (jnp_mod (sint (count st)) (sint (kappa cfg)) \<noteq> 0 \<longrightarrow>
                (\<exists>st'. update_state P cfg grads st = Inr st'
                   \<and> map projections (decomposition st') = map projections (decomposition st)
                   \<and> map variant_of (decomposition st') = map variant_of (decomposition st)))"
proof -
  from run_updates_wf [OF init_fn_wf(1) [OF assms(1)] assms(2), of P]
  obtain st where st: "run_updates P cfg st0 gss = Inr st"
    "wf_state cfg (map shape params) st" "count st = count st0 + of_nat (length gss)"
    by blast
  from st(3) init_fn_wf(2) [OF assms(1)] have c: "count st = of_nat (length gss)"
    by simp
  have wf: "wf_state cfg (map shape grads) st"
    using st(2) assms(3) by simp
  from update_state_wf [OF wf, of P] obtain st' where
    "update_state P cfg grads st = Inr st'"
    "map variant_of (decomposition st') = map variant_of (decomposition st)"
    "\<not> refresh_step cfg st \<longrightarrow>
       map projections (decomposition st') = map projections (decomposition st)"
    by blast
  then show ?thesis
    using st(1) c by (auto simp: refresh_step_def jnp_mod_def sint_of_nat_32)
qed

theorem partial_step_keeps_projections_witness:
  "init_fn test_prims small_cfg small_params = Inr small_state0
   \<and> list_all (\<lambda>grads. map shape grads = map shape small_params) [small_grads]
   \<and> map shape small_grads = map shape small_params
   \<and> run_updates test_prims small_cfg small_state0 [small_grads] = Inr small_state1
   \<and> sint (count small_state1) = 1 \<and> sint (kappa small_cfg) = 2
   \<and> jnp_mod (sint (count small_state1)) (sint (kappa small_cfg)) = 1
   \<and> update_state test_prims small_cfg small_grads small_state1 = Inr small_state2
   \<and> map projections (decomposition small_state2) = map projections (decomposition small_state1)
   \<and> map variant_of (decomposition small_state2) = map variant_of (decomposition small_state1)"
proof -
  have h1: "init_fn test_prims small_cfg small_params = Inr small_state0"
    by code_simp
  have h2: "list_all (\<lambda>grads. map shape grads = map shape small_params) [small_grads]"
    by code_simp
  have h3: "map shape small_grads = map shape small_params"
    by code_simp
  have h4: "run_updates test_prims small_cfg small_state0 [small_grads] = Inr small_state1"
    by code_simp
  have h5: "sint (count small_state1) = 1" "sint (kappa small_cfg) = 2"
    by (simp_all add: small_state1_def small_cfg_def)
  have h5': "jnp_mod (sint (count small_state1)) (sint (kappa small_cfg)) = 1"
    by (simp add: h5 jnp_mod_def)
  have h6: "update_state test_prims small_cfg small_grads small_state1 = Inr small_state2"
    by code_simp
  from partial_step_keeps_projections [OF h1 h2 h3] h4 h5' h6
  have "map projections (decomposition small_state2) = map projections (decomposition small_state1)
     \<and> map variant_of (decomposition small_state2) = map variant_of (decomposition small_state1)"
    by auto
  with h1 h2 h3 h4 h5 h5' h6 show ?thesis by blast
qed

text \<open>
  C7. In every state reached from \<open>init_fn\<close> by updates, \<open>query\<close> succeeds and returns,
  for every parameter, the moment its decomposition stands for (the naive buffer, the
  transposed left or right product, or the transposed average of both), and this
  tensor has the shape of the parameter.
\<close>

theorem query_returns_parameter_shape:
  assumes "init_fn P cfg params = Inr st0"
    and "list_all (\<lambda>grads. map shape grads = map shape params) gss"
    and "map shape grads = map shape params"
  shows "\<exists>st. run_updates P cfg st0 gss = Inr st
           \<and> query P cfg grads st
               = Inr (map2 (reconstruct P cfg) (map shape params) (decomposition st))
           \<and> map shape (map2 (reconstruct P cfg) (map shape params) (decomposition st))
               = map shape params"
proof -
  from run_updates_wf [OF init_fn_wf(1) [OF assms(1)] assms(2), of P]
  obtain st where st: "run_updates P cfg st0 gss = Inr st"
    "wf_state cfg (map shape params) st"
    by blast
  have wf: "wf_state cfg (map shape grads) st"
    using st(2) assms(3) by simp
  from query_reconstruct [OF wf, of P] st(1) show ?thesis
    unfolding assms(3) by blast
qed

theorem query_returns_parameter_shape_witness:
  "init_fn test_prims small_cfg small_params = Inr small_state0
   \<and> list_all (\<lambda>grads. map shape grads = map shape small_params) [small_grads]
   \<and> map shape small_grads = map shape small_params
   \<and> run_updates test_prims small_cfg small_state0 [small_grads] = Inr small_state1
   \<and> query test_prims small_cfg small_grads small_state1
       = Inr (map2 (reconstruct test_prims small_cfg) (map shape small_params)
                (decomposition small_state1))
   \<and> map2 (reconstruct test_prims small_cfg) (map shape small_params)
         (decomposition small_state1) = small_moments1
   \<and> map shape small_moments1 = [[2, 3], [3]]"
proof -
  have h1: "init_fn test_prims small_cfg small_params = Inr small_state0"
    by code_simp
  have h2: "list_all (\<lambda>grads. map shape grads = map shape small_params) [small_grads]"
    by code_simp
  have h3: "map shape small_grads = map shape small_params"
    by code_simp
  have h4: "run_updates test_prims small_cfg small_state0 [small_grads] = Inr small_state1"
    by code_simp
  have h5: "map2 (reconstruct test_prims small_cfg) (map shape small_params)
         (decomposition small_state1) = small_moments1"
    by code_simp
  have h6: "map shape small_moments1 = [[2, 3], [3]]"
    by code_simp
  from query_returns_parameter_shape [OF h1 h2 h3] h4
  have "query test_prims small_cfg small_grads small_state1
       = Inr (map2 (reconstruct test_prims small_cfg) (map shape small_params)
                (decomposition small_state1))"
    by auto
  with h1 h2 h3 h4 h5 h6 show ?thesis by blast
qed

text \<open>
  C3. Whenever \<open>query\<close> on the state \<open>update_fn\<close> is given returns moments of the
  gradients' shapes and \<open>update_state\<close> on that same state returns \<open>new_state\<close>,
  \<open>update_fn\<close> returns \<open>new_state\<close> together with updates that are, entry by entry,
  \<open>beta * moment + (1 - beta) * gradient\<close> for these moments of the state as it was
  before the call. In every state reached from \<open>init_fn\<close> by updates this is the case:
  \<open>query\<close>, \<open>update_state\<close> and \<open>update_fn\<close> all return.
\<close>

theorem update_fn_blends_stale_moment:
  "(query P cfg grads st = Inr ms \<and> map shape ms = map shape grads
      \<and> update_state P cfg grads st = Inr st' \<longrightarrow>
      update_fn P cfg grads st = Inr (map2 (ema (beta cfg)) ms grads, st'))
   \<and> (init_fn P cfg params = Inr st0
        \<and> list_all (\<lambda>grads. map shape grads = map shape params) gss
        \<and> map shape grads = map shape params \<longrightarrow>
        (\<exists>s moments s'. run_updates P cfg st0 gss = Inr s
            \<and> query P cfg grads s = Inr moments \<and> map shape moments = map shape grads
            \<and> update_state P cfg grads s = Inr s'
            \<and> update_fn P cfg grads s = Inr (map2 (ema (beta cfg)) moments grads, s')))"
proof (intro conjI impI)
  assume "query P cfg grads st = Inr ms \<and> map shape ms = map shape grads
      \<and> update_state P cfg grads st = Inr st'"
  then show "update_fn P cfg grads st = Inr (map2 (ema (beta cfg)) ms grads, st')"
    by (simp add: update_fn_Inr_iff)
next
  assume a: "init_fn P cfg params = Inr st0
        \<and> list_all (\<lambda>grads. map shape grads = map shape params) gss
        \<and> map shape grads = map shape params"
  from a run_updates_wf [OF init_fn_wf(1), of P cfg params st0 gss]
  obtain s where s: "run_updates P cfg st0 gss = Inr s" "wf_state cfg (map shape params) s"
    by blast
  have wf: "wf_state cfg (map shape grads) s"
    using s(2) a by simp
  from query_wf [OF wf, of P] obtain moments where
    m: "query P cfg grads s = Inr moments" "map shape moments = map shape grads"
    by blast
  from update_state_wf [OF wf, of P] obtain s' where
    s': "update_state P cfg grads s = Inr s'"
    by blast
  have "update_fn P cfg grads s = Inr (map2 (ema (beta cfg)) moments grads, s')"
    using m s' by (simp add: update_fn_Inr_iff)
  with s(1) m s'
  show "\<exists>s moments s'. run_updates P cfg st0 gss = Inr s
            \<and> query P cfg grads s = Inr moments \<and> map shape moments = map shape grads
            \<and> update_state P cfg grads s = Inr s'
            \<and> update_fn P cfg grads s = Inr (map2 (ema (beta cfg)) moments grads, s')"
    by blast
qed

theorem update_fn_blends_stale_moment_witness:
  "init_fn test_prims small_cfg small_params = Inr small_state0
   \<and> list_all (\<lambda>grads. map shape grads = map shape small_params) [small_grads]
   \<and> map shape small_grads = map shape small_params
   \<and> run_updates test_prims small_cfg small_state0 [small_grads] = Inr small_state1
   \<and> query test_prims small_cfg small_grads small_state1 = Inr small_moments1
   \<and> map shape small_moments1 = map shape small_grads
   \<and> update_state test_prims small_cfg small_grads small_state1 = Inr small_state2
   \<and> map2 (ema (beta small_cfg)) small_moments1 small_grads = small_updates1
   \<and> update_fn test_prims small_cfg small_grads small_state1 = Inr (small_updates1, small_state2)"
proof -
  have h1: "init_fn test_prims small_cfg small_params = Inr small_state0"
    by code_simp
  have h2: "list_all (\<lambda>grads. map shape grads = map shape small_params) [small_grads]"
    by code_simp
  have h3: "map shape small_grads = map shape small_params"
    by code_simp
  have h4: "run_updates test_prims small_cfg small_state0 [small_grads] = Inr small_state1"
    by code_simp
  have h5: "query test_prims small_cfg small_grads small_state1 = Inr small_moments1"
    by code_simp
  have h6: "map shape small_moments1 = map shape small_grads"
    by code_simp
  have h7: "update_state test_prims small_cfg small_grads small_state1 = Inr small_state2"
    by code_simp
  have h8: "map2 (ema (beta small_cfg)) small_moments1 small_grads = small_updates1"
    by code_simp
  from update_fn_blends_stale_moment
         [of test_prims small_cfg small_grads small_state1 small_moments1 small_state2] h5 h6 h7
  have "update_fn test_prims small_cfg small_grads small_state1
        = Inr (map2 (ema (beta small_cfg)) small_moments1 small_grads, small_state2)"
    by blast
  with h1 h2 h3 h4 h5 h6 h7 h8 show ?thesis by simp
qed

text \<open>
  C1. In a state reached from \<open>init_fn\<close> by updates whose \<open>count\<close> is 0 or a multiple of
  \<open>kappa\<close>, \<open>update_state\<close> succeeds, and for every factorized gradient and each
  populated side it stores a projection generated from a fresh key (the side's half of
  this step's split key, or in \<open>rng_only\<close> mode the successor of the stored key, which
  is then what is stored) and the data
  \<open>beta * (new_l_proj^T @ old_l_proj @ old_l_data) + (1 - beta) * (new_l_proj^T @ grad^T)\<close>
  on the left and
  \<open>beta * (old_r_data @ old_r_proj @ new_r_proj^T) + (1 - beta) * (grad^T @ new_r_proj^T)\<close>
  on the right. The left side is populated unless the side is \<open>right\<close>, the right side
  unless it is \<open>left\<close>.
\<close>

theorem refresh_step_reprojects:
  assumes init: "init_fn P cfg params = Inr st0"
    and gss: "list_all (\<lambda>grads. map shape grads = map shape params) gss"
    and run: "run_updates P cfg st0 gss = Inr st"
    and grads: "map shape grads = map shape params"
    and refresh: "count st = 0 \<or> sint (count st) mod sint (kappa cfg) = 0"
    and i: "i < length grads"
    and sf: "should_factorize cfg (shape (grads ! i))"
    and dims: "shape (grads ! i) = [ind, outd]"
    and keys: "split P (random_split_like_tree P (rng st) grads ! i) = (l_key, r_key)"
  shows "\<exists>st' t ld lp rd rp ld' lp' rd' rp'.
           update_state P cfg grads st = Inr st' \<and> tau cfg = Some t
           \<and> decomposition st ! i = TwoSideRandomDecomposition ld lp rd rp
           \<and> decomposition st' ! i = TwoSideRandomDecomposition ld' lp' rd' rp'
           \<and> (if side_of cfg ind outd \<noteq> ''right'' then
                 (\<exists>old_l_data old_l_proj new_l_key new_l_proj.
                    ld = Some old_l_data \<and> lp = Some old_l_proj
                    \<and> new_l_key = fresh_key P old_l_proj l_key
                    \<and> new_l_proj = random_generate P new_l_key (outd, t)
                    \<and> lp' = Some (if rng_only cfg then Key new_l_key else Mat new_l_proj)
                    \<and> ld' = Some (refresh_left (beta cfg) new_l_proj
                                    (proj_matrix P old_l_proj (outd, t)) old_l_data (grads ! i)))
               else ld' = None \<and> lp' = None)
           \<and> (if side_of cfg ind outd \<noteq> ''left'' then
                 (\<exists>old_r_data old_r_proj new_r_key new_r_proj.
                    rd = Some old_r_data \<and> rp = Some old_r_proj
                    \<and> new_r_key = fresh_key P old_r_proj r_key
                    \<and> new_r_proj = random_generate P new_r_key (t, ind)
                    \<and> rp' = Some (if rng_only cfg then Key new_r_key else Mat new_r_proj)
                    \<and> rd' = Some (refresh_right (beta cfg) new_r_proj
                                    (proj_matrix P old_r_proj (t, ind)) old_r_data (grads ! i)))
               else rd' = None \<and> rp' = None)"
proof -
  from run_updates_wf [OF init_fn_wf(1) [OF init] gss, of P] run grads
  have wf: "wf_state cfg (map shape grads) st" by simp
  have r: "refresh_step cfg st"
    using refresh by (auto simp: refresh_step_def jnp_mod_def)
  from update_state_wf [OF wf, of P] obtain st' where
    st': "update_state P cfg grads st = Inr st'" by blast
  let ?keys = "random_split_like_tree P (rng st) grads"
  from st' r have "tree_map3 (full_layer_fn P cfg) grads (decomposition st) ?keys
                   = Inr (decomposition st')"
    by (auto simp: update_state_def Let_def bind_err_eq_Inr)
  with i have layer: "full_layer_fn P cfg (grads ! i) (decomposition st ! i) (?keys ! i)
                      = Inr (decomposition st' ! i)"
    by (simp add: tree_map3_Inr_iff)
  have sf': "should_factorize cfg [ind, outd]" using sf dims by simp
  from wf i have "wf_dcomp cfg [ind, outd] (decomposition st ! i)"
    by (simp add: wf_state_nth dims [symmetric])
  then obtain t ld lp rd rp where t: "tau cfg = Some t"
    and d: "decomposition st ! i = TwoSideRandomDecomposition ld lp rd rp"
    and wl: "wf_side cfg (side_of cfg ind outd \<noteq> ''right'') [t, ind] [outd, t] ld lp"
    and wr: "wf_side cfg (side_of cfg ind outd \<noteq> ''left'') [outd, t] [t, ind] rd rp"
    unfolding wf_dcomp_factored [OF sf'] by blast
  note res = layer [unfolded d full_layer_fn_factored [OF sf' dims t wl wr keys], simplified, symmetric]
  have L: "if side_of cfg ind outd \<noteq> ''right'' then (\<exists>x p. ld = Some x \<and> lp = Some p)
           else ld = None \<and> lp = None"
    using wl by (auto simp: wf_side_True wf_side_False)
  have R: "if side_of cfg ind outd \<noteq> ''left'' then (\<exists>x p. rd = Some x \<and> rp = Some p)
           else rd = None \<and> rp = None"
    using wr by (auto simp: wf_side_True wf_side_False)
  show ?thesis
    apply (rule exI [of _ st'], rule exI [of _ t])
    apply (rule exI [of _ ld], rule exI [of _ lp], rule exI [of _ rd], rule exI [of _ rp])
    using st' t d L R
    by (auto simp: res refreshed_proj_def split: if_splits)
qed

theorem refresh_step_reprojects_witness:
  "init_fn test_prims small_cfg small_params = Inr small_state0
   \<and> list_all (\<lambda>grads. map shape grads = map shape small_params) [small_grads, small_grads]
   \<and> run_updates test_prims small_cfg small_state0 [small_grads, small_grads] = Inr small_state2
   \<and> map shape small_grads = map shape small_params
   \<and> sint (count small_state2) mod sint (kappa small_cfg) = 0
   \<and> 0 < length small_grads
   \<and> should_factorize small_cfg (shape (small_grads ! 0))
   \<and> shape (small_grads ! 0) = [2, 3]
   \<and> split test_prims (random_split_like_tree test_prims (rng small_state2) small_grads ! 0)
       = (43, 44)
   \<and> side_of small_cfg 2 3 = ''right''
   \<and> update_state test_prims small_cfg small_grads small_state2 = Inr small_state3
   \<and> decomposition small_state3 ! 0 =
       TwoSideRandomDecomposition None None
         (Some (refresh_right (9 / 10) (Tensor [1, 2] [22, 45 / 2]) (Tensor [1, 2] [2, 5 / 2])
                  (Tensor [3, 1] [57 / 25, 627 / 200, 399 / 100]) (small_grads ! 0)))
         (Some (Mat (Tensor [1, 2] [22, 45 / 2])))"
proof -
  have h1: "init_fn test_prims small_cfg small_params = Inr small_state0"
    by code_simp
  have h2: "list_all (\<lambda>grads. map shape grads = map shape small_params) [small_grads, small_grads]"
    by code_simp
  have h3: "run_updates test_prims small_cfg small_state0 [small_grads, small_grads] = Inr small_state2"
    by code_simp
  have h4: "map shape small_grads = map shape small_params"
    by code_simp
  have h5: "sint (count small_state2) mod sint (kappa small_cfg) = 0"
    by (simp add: small_state2_def small_cfg_def)
  have h6: "0 < length small_grads"
    by code_simp
  have h7: "should_factorize small_cfg (shape (small_grads ! 0))"
    by code_simp
  have h8: "shape (small_grads ! 0) = [2, 3]"
    by code_simp
  have h9: "split test_prims (random_split_like_tree test_prims (rng small_state2) small_grads ! 0)
       = (43, 44)"
    by code_simp
  have s: "side_of small_cfg 2 3 = ''right''"
    by code_simp
  have d: "decomposition small_state2 ! 0 =
       TwoSideRandomDecomposition None None
         (Some (Tensor [3, 1] [57 / 25, 627 / 200, 399 / 100]))
         (Some (Mat (Tensor [1, 2] [2, 5 / 2])))"
    by code_simp
  have c: "tau small_cfg = Some 1" "\<not> rng_only small_cfg" "beta small_cfg = 9 / 10"
    by (simp_all add: small_cfg_def)
  have g: "random_generate test_prims 44 (Suc 0, 2) = Tensor [Suc 0, 2] [22, 45 / 2]"
    by code_simp
  have u: "update_state test_prims small_cfg small_grads small_state2 = Inr small_state3"
    by code_simp
  from refresh_step_reprojects [OF h1 h2 h3 h4 disjI2 [OF h5] h6 h7 h8 h9]
  have "decomposition small_state3 ! 0 =
       TwoSideRandomDecomposition None None
         (Some (refresh_right (9 / 10) (Tensor [1, 2] [22, 45 / 2]) (Tensor [1, 2] [2, 5 / 2])
                  (Tensor [3, 1] [57 / 25, 627 / 200, 399 / 100]) (small_grads ! 0)))
         (Some (Mat (Tensor [1, 2] [22, 45 / 2])))"
    by (auto simp: s d c g u fresh_key_def proj_matrix_def)
  with h1 h2 h3 h4 h5 h6 h7 h8 h9 s u show ?thesis by blast
qed

text \<open>
  C5. With \<open>tau = None\<close>, \<open>flora\<close> builds the estimator with \<open>factored = False\<close>. Then
  \<open>init_fn\<close> returns, every sequence of updates succeeds, and after it the stored
  decompositions are the naive buffers of the plain exponential-moving-average
  estimator run on the same gradients from zero (\<open>data' = beta * data + (1 - beta) * grad\<close>
  at every step, whatever \<open>count mod kappa\<close> is); \<open>query\<close> returns these buffers
  unchanged, and the next \<open>update_fn\<close> emits and stores the next average.
\<close>

theorem flora_without_tau_is_ema:
  assumes "f_tau args = None"
    and "list_all (\<lambda>grads. map shape grads = map shape params) gss"
    and "map shape grads = map shape params"
  shows "\<not> factored (flora_moment_cfg args)
     \<and> (\<exists>st0 st st'.
           init_fn P (flora_moment_cfg args) params = Inr st0
         \<and> run_updates P (flora_moment_cfg args) st0 gss = Inr st
         \<and> decomposition st =
             map NaiveDecomposition
               (ema_run (f_b1 args) (map (\<lambda>p. zeros (shape p)) params) gss)
         \<and> query P (flora_moment_cfg args) grads st =
             Inr (ema_run (f_b1 args) (map (\<lambda>p. zeros (shape p)) params) gss)
         \<and> update_fn P (flora_moment_cfg args) grads st =
             Inr (ema_run (f_b1 args) (map (\<lambda>p. zeros (shape p)) params) (gss @ [grads]), st')
         \<and> decomposition st' =
             map NaiveDecomposition
               (ema_run (f_b1 args) (map (\<lambda>p. zeros (shape p)) params) (gss @ [grads])))"
proof -
  let ?cfg = "flora_moment_cfg args"
  let ?z = "map (\<lambda>p. zeros (shape p)) params"
  let ?st0 = "\<lparr>count = 0, decomposition = map NaiveDecomposition ?z,
               rng = PRNGKey P (seed ?cfg)\<rparr>"
  have nf: "\<not> factored ?cfg" and b: "beta ?cfg = f_b1 args"
    using assms(1) by (simp_all add: flora_moment_cfg_def)
  have i: "init_fn P ?cfg params = Inr ?st0"
    by (rule init_fn_naive [OF nf])
  have z: "map shape ?z = map shape params"
    by simp
  from run_updates_naive [OF nf _ z assms(2), of ?st0 P]
  obtain st where st: "run_updates P ?cfg ?st0 gss = Inr st"
    "decomposition st = map NaiveDecomposition (ema_run (f_b1 args) ?z gss)"
    "map shape (ema_run (f_b1 args) ?z gss) = map shape params"
    unfolding b by auto
  have sh: "map shape (ema_run (f_b1 args) ?z gss) = map shape grads"
    using st(3) assms(3) by simp
  note q = query_naive [OF nf st(2) sh, of P]
  note u = update_fn_naive [OF nf st(2) sh, of P, unfolded b, folded ema_run_snoc]
  show ?thesis
    using nf i st(1) st(2) q u by (intro conjI exI) auto
qed

theorem flora_without_tau_is_ema_witness:
  "f_tau no_tau_args = None
   \<and> list_all (\<lambda>grads. map shape grads = map shape small_params) [small_grads]
   \<and> map shape small_grads = map shape small_params
   \<and> ema_run (f_b1 no_tau_args) (map (\<lambda>p. zeros (shape p)) small_params) [small_grads]
       = [Tensor [2, 3] [1 / 10, 1 / 5, 3 / 10, 2 / 5, 1 / 2, 3 / 5],
          Tensor [3] [1 / 10, 1 / 10, 1 / 10]]
   \<and> (\<exists>st0 st.
           init_fn test_prims (flora_moment_cfg no_tau_args) small_params = Inr st0
         \<and> run_updates test_prims (flora_moment_cfg no_tau_args) st0 [small_grads] = Inr st
         \<and> decomposition st =
             map NaiveDecomposition
               [Tensor [2, 3] [1 / 10, 1 / 5, 3 / 10, 2 / 5, 1 / 2, 3 / 5],
                Tensor [3] [1 / 10, 1 / 10, 1 / 10]]
         \<and> query test_prims (flora_moment_cfg no_tau_args) small_grads st =
             Inr [Tensor [2, 3] [1 / 10, 1 / 5, 3 / 10, 2 / 5, 1 / 2, 3 / 5],
                  Tensor [3] [1 / 10, 1 / 10, 1 / 10]])"
proof -
  have h1: "f_tau no_tau_args = None"
    by (simp add: no_tau_args_def)
  have h2: "list_all (\<lambda>grads. map shape grads = map shape small_params) [small_grads]"
    by code_simp
  have h3: "map shape small_grads = map shape small_params"
    by code_simp
  have e: "ema_run (f_b1 no_tau_args) (map (\<lambda>p. zeros (shape p)) small_params) [small_grads]
       = [Tensor [2, 3] [1 / 10, 1 / 5, 3 / 10, 2 / 5, 1 / 2, 3 / 5],
          Tensor [3] [1 / 10, 1 / 10, 1 / 10]]"
    by code_simp
  from flora_without_tau_is_ema [OF h1 h2 h3, of test_prims, unfolded e] h1 h2 h3 e
  show ?thesis by blast
qed

text \<open>
  C10, as the code has it. A \<open>side\<close> other than \<open>left\<close>, \<open>right\<close> and \<open>auto\<close> is not
  rejected: given a rank \<open>tau\<close>, \<open>init_fn\<close> returns a state, every sequence of updates
  with gradients of the parameters' shapes succeeds, and every factorized tensor has,
  and keeps, both its left and its right side populated.
\<close>

theorem invalid_side_means_both_sides:
  assumes "side cfg \<noteq> ''left''" and "side cfg \<noteq> ''right''" and "side cfg \<noteq> ''auto''"
    and "tau cfg = Some t"
    and "list_all (\<lambda>grads. map shape grads = map shape params) gss"
  shows "\<exists>st0 st. init_fn P cfg params = Inr st0
           \<and> run_updates P cfg st0 gss = Inr st
           \<and> map variant_of (decomposition st) =
               map (\<lambda>p. if should_factorize cfg (shape p) then Factored True True True True
                         else Naive) params"
proof -
  from init_fn_total [of cfg P params] assms(4)
  obtain st0 where st0: "init_fn P cfg params = Inr st0" by auto
  then obtain ds where ds: "decomposition st0 = ds" "length ds = length params"
    "\<And>i. i < length params \<Longrightarrow>
       init_layer P cfg (params ! i)
         (random_split_like_tree P (PRNGKey P (seed cfg)) params ! i) = Inr (ds ! i)"
    by (auto simp: init_fn_Inr_iff tree_map2_Inr_iff)
  have v0: "map variant_of (decomposition st0) =
               map (\<lambda>p. if should_factorize cfg (shape p) then Factored True True True True
                         else Naive) params"
    unfolding list_eq_iff_nth_eq ds(1)
    using ds(2) init_layer_invalid_side [OF assms(1-3) ds(3)] by simp
  from run_updates_wf [OF init_fn_wf(1) [OF st0] assms(5), of P] v0 st0
  show ?thesis by auto
qed


theorem invalid_side_means_both_sides_witness:
  "side both_cfg \<noteq> ''left'' \<and> side both_cfg \<noteq> ''right'' \<and> side both_cfg \<noteq> ''auto''
   \<and> tau both_cfg = Some 1
   \<and> list_all (\<lambda>grads. map shape grads = map shape small_params) [small_grads]
   \<and> (\<exists>st0 st. init_fn test_prims both_cfg small_params = Inr st0
           \<and> run_updates test_prims both_cfg st0 [small_grads] = Inr st
           \<and> map variant_of (decomposition st) = [Factored True True True True, Naive])"
proof -
  have h1: "side both_cfg \<noteq> ''left''" and h2: "side both_cfg \<noteq> ''right''"
    and h3: "side both_cfg \<noteq> ''auto''" and h4: "tau both_cfg = Some 1"
    by (simp_all add: both_cfg_def)
  have h5: "list_all (\<lambda>grads. map shape grads = map shape small_params) [small_grads]"
    by code_simp
  have v: "map (\<lambda>p. if should_factorize both_cfg (shape p) then Factored True True True True
                     else Naive) small_params = [Factored True True True True, Naive]"
    by code_simp
  from invalid_side_means_both_sides [OF h1 h2 h3 h4 h5, of test_prims, unfolded v] h1 h2 h3 h4 h5
  show ?thesis by blast
qed

text \<open>
  C10 as stated fails: with \<open>side = "both"\<close>, \<open>init_fn\<close> and \<open>update_fn\<close> return
  normally.
\<close>

theorem invalid_side_not_rejected:
  "side both_cfg \<noteq> ''left'' \<and> side both_cfg \<noteq> ''right'' \<and> side both_cfg \<noteq> ''auto''
   \<and> init_fn test_prims both_cfg small_params = Inr both_state0
   \<and> update_fn test_prims both_cfg small_grads both_state0
       = Inr ([Tensor [2, 3] [1 / 10, 1 / 5, 3 / 10, 2 / 5, 1 / 2, 3 / 5],
               Tensor [3] [1 / 10, 1 / 10, 1 / 10]], both_state1)"
  by code_simp

text \<open>
  C8. For the list \<open>tx\<close> of either assembly: when every transformation's \<open>init\<close>
  returns, \<open>init_fn\<close> returns a state tuple of the length of \<open>tx\<close>, and whenever it
  returns the tuple has that length; and \<open>update_fn\<close> on a state of any other length is
  a ValueError, whatever the transformations would do.
\<close>

theorem chain_state_arity:
  "((\<forall>t \<in> set (flora_tx L P a). \<exists>s. t_init t params = Inr s) \<longrightarrow>
       (\<exists>st. chain_init (flora_tx L P a) params = Inr st
            \<and> length st = length (flora_tx L P a)))
   \<and> (chain_init (flora_tx L P a) params = Inr st \<longrightarrow> length st = length (flora_tx L P a))
   \<and> (length state \<noteq> length (flora_tx L P a) \<longrightarrow>
        flora_update_fn L P a grads state opt_params = Inl ValueError)
   \<and> ((\<forall>t \<in> set (adafactor_tx L' b). \<exists>s. t_init t params' = Inr s) \<longrightarrow>
       (\<exists>st. chain_init (adafactor_tx L' b) params' = Inr st
            \<and> length st = length (adafactor_tx L' b)))
   \<and> (chain_init (adafactor_tx L' b) params' = Inr st' \<longrightarrow>
        length st' = length (adafactor_tx L' b))
   \<and> (length state' \<noteq> length (adafactor_tx L' b) \<longrightarrow>
        adafactor_update_fn L' b grads' state' opt_params' query_only = Inl ValueError)"
  using chain_init_total [of "flora_tx L P a" params]
    chain_init_total [of "adafactor_tx L' b" params']
  by (auto simp: chain_init_length flora_update_fn_def adafactor_update_fn_def Let_def)

theorem chain_state_arity_witness:
  "length (flora_tx test_library test_prims small_args) = 6
   \<and> list_all (\<lambda>t. \<not> isl (t_init t small_params)) (flora_tx test_library test_prims small_args)
   \<and> (\<exists>st. chain_init (flora_tx test_library test_prims small_args) small_params = Inr st
          \<and> length st = 6)
   \<and> flora_update_fn test_library test_prims small_args small_grads
        [LibraryState (), LibraryState ()] (Some small_params) = Inl ValueError
   \<and> length (adafactor_tx test_library default_adafactor_args) = 4
   \<and> list_all (\<lambda>t. \<not> isl (t_init t small_params)) (adafactor_tx test_library default_adafactor_args)
   \<and> (\<exists>st. chain_init (adafactor_tx test_library default_adafactor_args) small_params = Inr st
          \<and> length st = 4)
   \<and> adafactor_update_fn test_library default_adafactor_args small_grads
        [LibraryState (), LibraryState ()] (Some small_params) False = Inl ValueError"
proof -
  have lf: "length (flora_tx test_library test_prims small_args) = 6"
    by code_simp
  have la: "length (adafactor_tx test_library default_adafactor_args) = 4"
    by code_simp
  have f: "list_all (\<lambda>t. \<not> isl (t_init t small_params))
             (flora_tx test_library test_prims small_args)"
    by code_simp
  have a: "list_all (\<lambda>t. \<not> isl (t_init t small_params))
             (adafactor_tx test_library default_adafactor_args)"
    by code_simp
  have f': "\<forall>t \<in> set (flora_tx test_library test_prims small_args).
              \<exists>s. t_init t small_params = Inr s"
    using f unfolding list_all_iff by (metis sum.collapse(2))
  have a': "\<forall>t \<in> set (adafactor_tx test_library default_adafactor_args).
              \<exists>s. t_init t small_params = Inr s"
    using a unfolding list_all_iff by (metis sum.collapse(2))
  have n: "length [LibraryState (), LibraryState () :: (nat, rat, unit) link_state] \<noteq> 6"
    "length [LibraryState (), LibraryState () :: (nat, rat, unit) link_state] \<noteq> 4"
    by simp_all
  from chain_state_arity [of test_library test_prims small_args small_params _
         "[LibraryState (), LibraryState ()]" small_grads "Some small_params"
         test_library default_adafactor_args small_params _
         "[LibraryState (), LibraryState ()]" small_grads "Some small_params" False]
    f' a' n lf la f a
  show ?thesis by auto
qed

end
